theory Spec2Isabelle
  imports Complex_Main
begin

section \<open>Python and numpy primitives used by the sources\<close>

text \<open>
  Numbers: numpy doubles are modelled by exact reals and complex doubles by \<^typ>\<open>complex\<close>.
  The elementwise operations \<open>1.0 / a\<close> and \<open>sqrt(a)\<close> never raise in numpy (they yield
  \<open>inf\<close> or \<open>nan\<close> with a warning); no statement below depends on their value at a zero
  divisor or at a negative radicand.  Every place where the Python raises is a branch of
  the model returning \<open>Inl\<close> of the exception.
\<close>

datatype py_error =
    IndexError
  | ValueError
  | ZeroDivisionError
  | AssertionError
  | TypeError
  | IOError
  | NoSuchNodeError

text \<open>Sequencing of statements that may raise: the first exception ends the
  computation.\<close>

definition py_bind :: "py_error + 'a \<Rightarrow> ('a \<Rightarrow> py_error + 'b) \<Rightarrow> py_error + 'b" where
  "py_bind r f = (case r of Inl e \<Rightarrow> Inl e | Inr x \<Rightarrow> f x)"

text \<open>\<open>a[i]\<close> on a sequence: a negative index counts from the end, an index outside
  the sequence raises \<open>IndexError\<close>.\<close>

definition getitem :: "'a list \<Rightarrow> int \<Rightarrow> py_error + 'a" where
  "getitem a i =
     (if 0 \<le> i \<and> i < int (length a) then Inr (a ! nat i)
      else if i < 0 \<and> - int (length a) \<le> i then Inr (a ! nat (int (length a) + i))
      else Inl IndexError)"

text \<open>\<open>numpy.diff(a)\<close>: \<open>out[i] = a[i+1] - a[i]\<close>; empty for fewer than two entries.\<close>

fun diff :: "real list \<Rightarrow> real list" where
  "diff (x # y # ys) = (y - x) # diff (y # ys)"
| "diff [x] = []"
| "diff [] = []"

text \<open>Elementwise \<open>a + b\<close> and \<open>a * b\<close> of one-dimensional arrays, with numpy's broadcasting:
  equal lengths combine pointwise, a length-one operand is stretched, anything else
  raises \<open>ValueError\<close>.\<close>

definition broadcast2 :: "(real \<Rightarrow> real \<Rightarrow> real) \<Rightarrow> real list \<Rightarrow> real list \<Rightarrow> py_error + real list" where
  "broadcast2 f a b =
     (if length a = length b then Inr (map2 f a b)
      else if length a = 1 then Inr (map (f (hd a)) b)
      else if length b = 1 then Inr (map (\<lambda>x. f x (hd b)) a)
      else Inl ValueError)"

text \<open>The slice \<open>r_[minE:maxE:dE]\<close> is \<open>numpy.arange(minE, maxE, dE)\<close>: a zero step raises,
  otherwise there are \<open>ceil((maxE - minE) / dE)\<close> points (none when that is negative), the
  \<open>i\<close>-th being \<open>minE + i * dE\<close>.\<close>

definition r_slice :: "real \<Rightarrow> real \<Rightarrow> real \<Rightarrow> py_error + real list" where
  "r_slice minE maxE dE =
     (if dE = 0 then Inl ZeroDivisionError
      else Inr (map (\<lambda>i. minE + real i * dE) [0 ..< nat \<lceil>(maxE - minE) / dE\<rceil>]))"

text \<open>\<open>numpy.interp(x, xp, fp, left, right)\<close> at one abscissa.  Below \<open>xp[0]\<close> the value is
  \<open>left\<close>, above \<open>xp[-1]\<close> it is \<open>right\<close>; in between it is the line through the two
  neighbouring sample points (numpy documents the result for non-increasing \<open>xp\<close> as
  meaningless; the segment is found here by scanning from the left).\<close>

fun interp_segment :: "real \<Rightarrow> (real \<times> real) list \<Rightarrow> real" where
  "interp_segment x ((x0, y0) # (x1, y1) # ps) =
     (if x < x1 then (y1 - y0) / (x1 - x0) * (x - x0) + y0
      else interp_segment x ((x1, y1) # ps))"
| "interp_segment x [(x0, y0)] = y0"
| "interp_segment x [] = 0"

definition interp_at :: "real list \<Rightarrow> real list \<Rightarrow> real \<Rightarrow> real \<Rightarrow> real \<Rightarrow> real" where
  "interp_at xp fp left right x =
     (if x < hd xp then left
      else if last xp < x then right
      else interp_segment x (zip xp fp))"

definition interp :: "real list \<Rightarrow> real list \<Rightarrow> real list \<Rightarrow> real \<Rightarrow> real \<Rightarrow> py_error + real list" where
  "interp x xp fp left right =
     (if xp = [] then Inl ValueError
      else if length fp \<noteq> length xp then Inl ValueError
      else Inr (map (interp_at xp fp left right) x))"

text \<open>\<open>"%i" % idx\<close> for an index taken from \<open>range\<close>: the decimal numeral.\<close>

definition digit :: "nat \<Rightarrow> char" where
  "digit d = ''0123456789'' ! d"

function str_nat :: "nat \<Rightarrow> string" where
  "str_nat n = (if n < 10 then [digit n] else str_nat (n div 10) @ [digit (n mod 10)])"
  by pat_completeness auto
termination
  by (relation "measure (\<lambda>n. n)") auto

declare str_nat.simps [simp del]

text \<open>\<open>sep.join(parts)\<close> and \<open>s.replace(" ", "_")\<close>.\<close>

fun join :: "string \<Rightarrow> string list \<Rightarrow> string" where
  "join sep [] = []"
| "join sep [p] = p"
| "join sep (p # q # ps) = p @ sep @ join sep (q # ps)"

definition replace_space :: "string \<Rightarrow> string" where
  "replace_space s = map (\<lambda>c. if c = CHR '' '' then CHR ''_'' else c) s"

section \<open>The eigenvalue module\<close>

text \<open>Source: \<^verbatim>\<open>einpartikkel/eigenvalues/eigenvalues_iter.py\<close>.\<close>

subsection \<open>Collaborators\<close>

text \<open>
  The config object, as far as the module reads it: the two entries of its
  \<open>[Eigenvalues]\<close> section, and the list \<open>GetRadialPostfix(conf)\<close> of the name generator
  module, which is not among the sources and enters as data.
\<close>

record config =
  Eigenvalues_folder_name :: string
  Eigenvalues_shift :: real
  RadialPostfix :: "string list"

text \<open>
  What a \<open>PiramSolver\<close> holds once \<open>Solve()\<close> has returned, and the error list of the
  GMRES shift-invert solver.  \<open>SetEigenvector(psi, i)\<close> loads the \<open>i\<close>-th entry of
  \<open>Eigenvectors\<close> into \<open>psi\<close>.
\<close>

record piram_solver =
  GetEigenvalues :: "real list"
  GetConvergenceEstimates :: "real list"
  GetErrorEstimates :: "real list"
  Eigenvectors :: "complex list list list"
  GetOperatorCount :: nat
  GetRestartCount :: nat
  GetOrthogonalizationCount :: nat
  BaseProblem_Config :: config

record gmres_solver =
  GetErrorEstimateList :: "real list"

text \<open>The file system holds HDF5 files; a file maps node paths to nodes and carries
  the attributes of its \<open>/Eig\<close> group.  The logger collects records.\<close>

datatype h5node = Group | RealArray "real list" | WaveData "complex list list"

datatype h5attr = ConfigObject config | Counter nat

record h5file =
  nodes :: "string \<rightharpoonup> h5node"
  attrs :: "string \<rightharpoonup> h5attr"

datatype log_level = INFO | WARNING | ERROR

record world =
  fs :: "string \<rightharpoonup> h5file"
  log :: "(log_level \<times> string) list"

definition logger :: "log_level \<Rightarrow> string \<Rightarrow> world \<Rightarrow> world" where
  "logger lvl msg w = w\<lparr>log := log w @ [(lvl, msg)]\<rparr>"

subsection \<open>Names\<close>

definition GetEigenvectorDatasetName :: "nat \<Rightarrow> string" where
  "GetEigenvectorDatasetName idx = ''Eigenvector_'' @ str_nat idx"

definition GetEigenvectorGroupName :: string where
  "GetEigenvectorGroupName = ''/Eig''"

definition GetEigenvectorDatasetPath :: "nat \<Rightarrow> string" where
  "GetEigenvectorDatasetPath eigenvectorIndex =
     GetEigenvectorGroupName @ ''/'' @ GetEigenvectorDatasetName eigenvectorIndex"

text \<open>\<open>NameGeneratorBoundstates(conf, l, m)\<close>.  The arguments \<open>l\<close> and \<open>m\<close> enter only
  through Python's \<open>str\<close>, and the result passes through \<open>os.path.normpath\<close>; both are
  parameters (\<open>l\<close> is an integer for \<open>LoadEigenpairs\<close> and a numpy array for
  \<open>SaveEigenpairsSolverShiftInvert\<close>).\<close>

definition NameGeneratorBoundstates ::
  "('k \<Rightarrow> string) \<Rightarrow> (string \<Rightarrow> string) \<Rightarrow> config \<Rightarrow> 'k \<Rightarrow> 'k \<Rightarrow> string" where
  "NameGeneratorBoundstates str normpath conf l m =
     (let folderName = Eigenvalues_folder_name conf;
          radialPostfix = join ''_'' (RadialPostfix conf);
          l' = replace_space (str l);
          m' = replace_space (str m);
          filename = folderName @ ''/'';
          filename = filename @ radialPostfix @ (''_l'' @ l' @ ''_m'' @ m') @ ''.h5''
      in normpath filename)"

subsection \<open>FindEigenvaluesInverseIterationsPiram\<close>

text \<open>\<open>where(estimates < 0)[0]\<close> and the index-array read \<open>ev[idx]\<close>.\<close>

definition where_negative :: "real list \<Rightarrow> int list" where
  "where_negative estimates =
     map int (filter (\<lambda>i. estimates ! i < 0) [0 ..< length estimates])"

fun take_indices :: "'a list \<Rightarrow> int list \<Rightarrow> py_error + 'a list" where
  "take_indices a [] = Inr []"
| "take_indices a (i # idx) =
     py_bind (getitem a i) (\<lambda>x. py_bind (take_indices a idx) (\<lambda>xs. Inr (x # xs)))"

text \<open>Lines 63--73; the problem set-up and \<open>solver.Solve()\<close> of lines 50--61 belong to
  pyprop, so the function is given the solved solver objects.\<close>

definition FindEigenvaluesInverseIterationsPiram ::
  "config \<Rightarrow> piram_solver \<Rightarrow> gmres_solver \<Rightarrow> py_error + (piram_solver \<times> gmres_solver \<times> real list)" where
  "FindEigenvaluesInverseIterationsPiram conf solver shiftInvertSolver =
     (let ev = GetEigenvalues solver;
          estimates = GetConvergenceEstimates solver;
          idx = where_negative estimates
      in py_bind (take_indices ev idx) (\<lambda>eigenvalues.
         let shift = Eigenvalues_shift conf;
             eigenvalues = map (\<lambda>x. 1 / x + shift) eigenvalues
         in Inr (solver, shiftInvertSolver, eigenvalues)))"

subsection \<open>Storage\<close>

text \<open>
  The pyprop and PyTables calls of the module.  \<open>SaveWavefunctionHDF\<close> creates the file
  and the group of the dataset when they are missing and (over)writes the dataset;
  \<open>RemoveExistingDataset\<close> does nothing when the file is missing; \<open>createArray\<close> writes a
  real array below a group; \<open>GetArrayFromHDF5\<close> reads one.
\<close>

definition dirname :: "string \<Rightarrow> string" where
  "dirname path = rev (tl (dropWhile (\<lambda>c. c \<noteq> CHR ''/'') (rev path)))"

text \<open>The node found under a path of a file; nothing when the file or the node is
  missing.\<close>

definition node_at :: "world \<Rightarrow> string \<Rightarrow> string \<Rightarrow> h5node option" where
  "node_at w filename path =
     (case fs w filename of None \<Rightarrow> None | Some h5 \<Rightarrow> nodes h5 path)"

definition empty_h5file :: h5file where
  "empty_h5file = \<lparr>nodes = Map.empty, attrs = Map.empty\<rparr>"

definition SaveWavefunctionHDF :: "string \<Rightarrow> string \<Rightarrow> complex list list \<Rightarrow> world \<Rightarrow> world" where
  "SaveWavefunctionHDF filename datasetPath psi w =
     (let h5 = (case fs w filename of None \<Rightarrow> empty_h5file | Some h5 \<Rightarrow> h5);
          h5' = h5\<lparr>nodes := (nodes h5)(dirname datasetPath \<mapsto> Group, datasetPath \<mapsto> WaveData psi)\<rparr>
      in w\<lparr>fs := (fs w)(filename \<mapsto> h5')\<rparr>)"

definition RemoveExistingDataset :: "string \<Rightarrow> string \<Rightarrow> world \<Rightarrow> world" where
  "RemoveExistingDataset filename datasetPath w =
     (case fs w filename of
        None \<Rightarrow> w
      | Some h5 \<Rightarrow> w\<lparr>fs := (fs w)(filename \<mapsto> h5\<lparr>nodes := (nodes h5)(datasetPath := None)\<rparr>)\<rparr>)"

definition createArray :: "string \<Rightarrow> string \<Rightarrow> real list \<Rightarrow> h5file \<Rightarrow> h5file" where
  "createArray grp name a h5 = h5\<lparr>nodes := (nodes h5)(grp @ ''/'' @ name \<mapsto> RealArray a)\<rparr>"

definition set_attr :: "string \<Rightarrow> h5attr \<Rightarrow> h5file \<Rightarrow> h5file" where
  "set_attr name v h5 = h5\<lparr>attrs := (attrs h5)(name \<mapsto> v)\<rparr>"

definition GetArrayFromHDF5 :: "string \<Rightarrow> string \<Rightarrow> string \<Rightarrow> world \<Rightarrow> py_error + real list" where
  "GetArrayFromHDF5 filename grp name w =
     (case fs w filename of
        None \<Rightarrow> Inl IOError
      | Some h5 \<Rightarrow>
          (case nodes h5 (grp @ ''/'' @ name) of
             None \<Rightarrow> Inl NoSuchNodeError
           | Some (RealArray a) \<Rightarrow> Inr a
           | Some _ \<Rightarrow> Inl TypeError))"

subsection \<open>SaveEigenpairsSolverShiftInvert\<close>

text \<open>Lines 119--121: every process stores every eigenvector of the solver.\<close>

fun store_eigenvectors ::
  "piram_solver \<Rightarrow> string \<Rightarrow> nat list \<Rightarrow> world \<Rightarrow> world \<times> (py_error + unit)" where
  "store_eigenvectors solver filename [] w = (w, Inr ())"
| "store_eigenvectors solver filename (i # is) w =
     (case getitem (Eigenvectors solver) (int i) of
        Inl e \<Rightarrow> (w, Inl e)
      | Inr psi \<Rightarrow>
          store_eigenvectors solver filename is
            (SaveWavefunctionHDF filename (GetEigenvectorDatasetPath i) psi w))"

text \<open>Lines 132--151 on the opened file: the body of the \<open>try\<close>.  \<open>getNode\<close> raises when
  the group is missing, which the \<open>except\<close> turns into a warning.\<close>

definition store_arrays ::
  "piram_solver \<Rightarrow> gmres_solver \<Rightarrow> real list \<Rightarrow> h5file \<Rightarrow> py_error + h5file" where
  "store_arrays solver shiftInvertSolver E h5 =
     (let eigGroupName = GetEigenvectorGroupName
      in case nodes h5 eigGroupName of
           Some Group \<Rightarrow>
             Inr (set_attr ''orthCount'' (Counter (GetOrthogonalizationCount solver))
                 (set_attr ''restartCount'' (Counter (GetRestartCount solver))
                 (set_attr ''opCount'' (Counter (GetOperatorCount solver))
                 (set_attr ''configObject'' (ConfigObject (BaseProblem_Config solver))
                 (createArray eigGroupName ''ConvergenceEstimateEig'' (GetConvergenceEstimates solver)
                 (createArray eigGroupName ''ErrorEstimateListPIRAM'' (GetErrorEstimates solver)
                 (createArray eigGroupName ''ErrorEstimateListGMRES'' (GetErrorEstimateList shiftInvertSolver)
                 (createArray eigGroupName ''Eigenvalues'' E h5))))))))
         | _ \<Rightarrow> Inl NoSuchNodeError)"

text \<open>
  The whole function for one process.  \<open>str\<close> renders the sorted arrays of distinct
  \<open>l\<close> and \<open>m\<close> values, \<open>LmIndices\<close> lists the \<open>(l, m)\<close> pairs of the angular range, and
  \<open>ProcId\<close> is the rank of the process.  \<open>os.remove\<close> is taken to succeed (its failure
  is logged and ignored by the source).  The solver's own \<open>GetEigenvalues()\<close> hands out
  the same array as \<open>solver.Solver.GetEigenvalues()\<close>.
\<close>

definition SaveEigenpairsSolverShiftInvert ::
  "(int list \<Rightarrow> string) \<Rightarrow> (string \<Rightarrow> string) \<Rightarrow> nat \<Rightarrow> (int \<times> int) list \<Rightarrow>
   piram_solver \<Rightarrow> gmres_solver \<Rightarrow> world \<Rightarrow> world \<times> (py_error + unit)" where
  "SaveEigenpairsSolverShiftInvert str normpath ProcId LmIndices solver shiftInvertSolver w =
     (let conf = BaseProblem_Config solver;
          shift = Eigenvalues_shift conf;
          l = sort (remdups (map fst LmIndices));
          m = sort (remdups (map snd LmIndices));
          filename = NameGeneratorBoundstates str normpath conf l m;
          E = map (\<lambda>x. 1 / x + shift) (GetEigenvalues solver);
          w1 = (if fs w filename \<noteq> None \<and> ProcId = 0
                then w\<lparr>fs := (fs w)(filename := None)\<rparr> else w);
          w2 = logger INFO ''Now storing eigenvectors...'' w1
      in case store_eigenvectors solver filename [0 ..< length E] w2 of
           (w3, Inl e) \<Rightarrow> (w3, Inl e)
         | (w3, Inr u) \<Rightarrow>
             if ProcId = 0 then
               (let eigGroupName = GetEigenvectorGroupName;
                    w4 = RemoveExistingDataset filename (eigGroupName @ ''/ConvergenceEstimateEig'')
                        (RemoveExistingDataset filename (eigGroupName @ ''/ErrorEstimateListPIRAM'')
                        (RemoveExistingDataset filename (eigGroupName @ ''/ErrorEstimateListGMRES'')
                        (RemoveExistingDataset filename (eigGroupName @ ''/Eigenvalues'') w3)))
                in case fs w4 filename of
                     None \<Rightarrow> (w4, Inl IOError)
                   | Some h5 \<Rightarrow>
                       (case store_arrays solver shiftInvertSolver E h5 of
                          Inr h5' \<Rightarrow> (w4\<lparr>fs := (fs w4)(filename \<mapsto> h5')\<rparr>, Inr ())
                        | Inl e \<Rightarrow>
                            (logger WARNING
                               ''Warning: could not store eigenvalues and error estimates!'' w4,
                             Inr ())))
             else (w3, Inr ()))"

subsection \<open>LoadEigenpairs\<close>

text \<open>\<open>myGroup[0,:]\<close> on the node at a dataset path.\<close>

definition read_row0 :: "h5file \<Rightarrow> string \<Rightarrow> py_error + complex list" where
  "read_row0 h5 path =
     (case nodes h5 path of
        None \<Rightarrow> Inl NoSuchNodeError
      | Some (WaveData d) \<Rightarrow> getitem d 0
      | Some (RealArray a) \<Rightarrow> Inl IndexError
      | Some Group \<Rightarrow> Inl TypeError)"

fun load_eigenvectors :: "h5file \<Rightarrow> nat list \<Rightarrow> py_error + complex list list" where
  "load_eigenvectors h5 [] = Inr []"
| "load_eigenvectors h5 (i # is) =
     py_bind (read_row0 h5 (GetEigenvectorDatasetPath i)) (\<lambda>v.
     py_bind (load_eigenvectors h5 is) (\<lambda>V. Inr (v # V)))"

definition LoadEigenpairs ::
  "('k \<Rightarrow> string) \<Rightarrow> (string \<Rightarrow> string) \<Rightarrow> config \<Rightarrow> 'k \<Rightarrow> 'k \<Rightarrow> world \<Rightarrow>
   world \<times> (py_error + (real list \<times> complex list list))" where
  "LoadEigenpairs str normpath conf l m w =
     (let filename = NameGeneratorBoundstates str normpath conf l m
      in case fs w filename of
           None \<Rightarrow>
             (logger WARNING (''Eigenstates file does not exist, skipping: '' @ filename) w,
              Inr ([], []))
         | Some h5 \<Rightarrow>
             (let w1 = logger INFO ''Now loading eigenvalues...'' w;
                  eigPath = GetEigenvectorGroupName
              in case GetArrayFromHDF5 filename eigPath ''Eigenvalues'' w1 of
                   Inl e \<Rightarrow> (w1, Inl e)
                 | Inr E \<Rightarrow>
                     (let w2 = logger INFO ''Now loading eigenvectors...'' w1
                      in (w2, py_bind (load_eigenvectors h5 [0 ..< length E])
                                (\<lambda>V. Inr (E, V))))))"

section \<open>analysis.py: density of states\<close>

text \<open>Source: \<^verbatim>\<open>einpartikkel/analysis/analysis.py\<close>.\<close>

text \<open>Lines 159--164 of \<open>CalculateEnergyDistribution\<close>: \<open>curE[:-1]\<close> is \<open>butlast\<close>, \<open>curE[1:]\<close>
  is \<open>tl\<close>.  The two \<open>diff\<close> operands always have the same length, so their sum is
  pointwise.\<close>

definition interiorSpacing_energy :: "real list \<Rightarrow> real list" where
  "interiorSpacing_energy curE =
     map (\<lambda>s. s / 2) (map2 (+) (diff (butlast curE)) (diff (tl curE)))"

definition spacing_energy :: "real list \<Rightarrow> py_error + real list" where
  "spacing_energy curE =
     (let interiorSpacing = interiorSpacing_energy curE
      in py_bind (getitem curE 1) (\<lambda>e1.
         py_bind (getitem curE 0) (\<lambda>e0.
         let leftSpacing = (e1 - e0) / 2
         in py_bind (getitem curE (- 1)) (\<lambda>eN1.
            py_bind (getitem curE (- 2)) (\<lambda>eN2.
            let rightSpacing = (eN1 - eN2) / 2
            in Inr ([leftSpacing] @ interiorSpacing @ [rightSpacing]))))))"

definition density_energy :: "real list \<Rightarrow> py_error + real list" where
  "density_energy curE =
     py_bind (spacing_energy curE) (\<lambda>spacing. Inr (map (\<lambda>s. 1 / s) spacing))"

text \<open>Lines 264--268 of \<open>CalculateAngularDistribution\<close>.\<close>

definition interiorSpacing_angular :: "real list \<Rightarrow> real list" where
  "interiorSpacing_angular curE = tl (diff curE)"

definition spacing_angular :: "real list \<Rightarrow> py_error + real list" where
  "spacing_angular curE =
     (let interiorSpacing = interiorSpacing_angular curE
      in py_bind (getitem curE 1) (\<lambda>e1.
         py_bind (getitem curE 0) (\<lambda>e0.
         let leftSpacing = e1 - e0
         in py_bind (getitem curE (- 1)) (\<lambda>eN1.
            py_bind (getitem curE (- 2)) (\<lambda>eN2.
            let rightSpacing = eN1 - eN2
            in Inr ([leftSpacing] @ interiorSpacing @ [rightSpacing]))))))"

definition density_angular :: "real list \<Rightarrow> py_error + real list" where
  "density_angular curE =
     py_bind (spacing_angular curE) (\<lambda>spacing. Inr (map (\<lambda>s. 1 / sqrt s) spacing))"

section \<open>analysis.py: wavefunctions and the overlap\<close>

text \<open>
  A wavefunction object is a cell of the store, holding its data array (one row of
  radial coefficients per angular block); a reference is the cell's index.  pyprop's
  \<open>psi.Copy()\<close> allocates a new cell with the same data, and the representation's
  \<open>MultiplyOverlap(psi)\<close> overwrites the data of \<open>psi\<close> with the overlap operator \<open>S\<close>
  applied to it.
\<close>

type_synonym wavedata = "complex list list"

type_synonym store = "wavedata list"

definition Copy :: "store \<Rightarrow> nat \<Rightarrow> store \<times> nat" where
  "Copy h psi = (h @ [h ! psi], length h)"

definition Representation_MultiplyOverlap :: "(wavedata \<Rightarrow> wavedata) \<Rightarrow> store \<Rightarrow> nat \<Rightarrow> store" where
  "Representation_MultiplyOverlap S h psi = h[psi := S (h ! psi)]"

definition MultiplyOverlap :: "(wavedata \<Rightarrow> wavedata) \<Rightarrow> store \<Rightarrow> nat \<Rightarrow> store \<times> nat" where
  "MultiplyOverlap S h inPsi =
     (let (h1, outPsi) = Copy h inPsi;
          h2 = Representation_MultiplyOverlap S h1 outPsi
      in (h2, outPsi))"

section \<open>analysis.py: CalculateEnergyDistribution\<close>

text \<open>\<open>dot(conj(curV.transpose()), psiSlice)\<close>: \<open>curV\<close> is given by its eigenvectors (the
  rows of \<open>curV.transpose()\<close>); a row whose length is not that of \<open>psiSlice\<close> raises
  \<open>ValueError\<close>.\<close>

definition vdot :: "complex list \<Rightarrow> complex list \<Rightarrow> py_error + complex" where
  "vdot v psiSlice =
     (if length v = length psiSlice then Inr (sum_list (map2 (\<lambda>a b. cnj a * b) v psiSlice))
      else Inl ValueError)"

fun dot_conj :: "complex list list \<Rightarrow> complex list \<Rightarrow> py_error + complex list" where
  "dot_conj [] psiSlice = Inr []"
| "dot_conj (v # vs) psiSlice =
     py_bind (vdot v psiSlice) (\<lambda>c. py_bind (dot_conj vs psiSlice) (\<lambda>cs. Inr (c # cs)))"

text \<open>One tuple \<open>(angIdx, curE, curV, l, m)\<close> of \<open>IterateStates\<close>, and the body of the loop
  over them (lines 150--167) acting on \<open>(energyDistr, totalIon)\<close>.\<close>

type_synonym state_tuple = "int \<times> real list \<times> complex list list \<times> nat \<times> int"

fun energy_block ::
  "wavedata \<Rightarrow> real list \<Rightarrow> state_tuple \<Rightarrow> real list \<times> real \<Rightarrow> py_error + (real list \<times> real)" where
  "energy_block overlapPsi E (angIdx, curE, curV, l, m) (energyDistr, totalIon) =
     py_bind (getitem overlapPsi angIdx) (\<lambda>psiSlice.
     py_bind (dot_conj curV psiSlice) (\<lambda>c.
     let proj = map (\<lambda>z. (cmod z)\<^sup>2) c;
         totalIon = totalIon + sum_list proj
     in py_bind (density_energy curE) (\<lambda>density.
        py_bind (broadcast2 (*) proj density) (\<lambda>fp.
        py_bind (interp E curE fp 0 0) (\<lambda>dPdE.
        Inr (map2 (+) energyDistr dPdE, totalIon))))))"

fun energy_loop ::
  "wavedata \<Rightarrow> real list \<Rightarrow> state_tuple list \<Rightarrow> real list \<times> real \<Rightarrow> py_error + (real list \<times> real)" where
  "energy_loop overlapPsi E [] acc = Inr acc"
| "energy_loop overlapPsi E (b # bs) acc =
     py_bind (energy_block overlapPsi E b acc) (energy_loop overlapPsi E bs)"

text \<open>The share of one tuple in \<open>totalIon\<close>: \<open>sum(proj)\<close> of line 156.\<close>

fun block_totalIon :: "wavedata \<Rightarrow> state_tuple \<Rightarrow> real" where
  "block_totalIon overlapPsi (angIdx, curE, curV, l, m) =
     (case getitem overlapPsi angIdx of
        Inl e \<Rightarrow> 0
      | Inr psiSlice \<Rightarrow>
          (case dot_conj curV psiSlice of
             Inl e \<Rightarrow> 0
           | Inr c \<Rightarrow> sum_list (map (\<lambda>z. (cmod z)\<^sup>2) c)))"

text \<open>
  What a call leaves behind: the returned pair \<open>(E, energyDistr)\<close>, the numbers written
  by the two \<open>print\<close> statements, and the message handed to \<open>self.Logger\<close>.  The
  tuples of \<open>self.Eigenstate.IterateStates(self.BoundThreshold)\<close> are the parameter
  \<open>states\<close>; \<open>self.Logger\<close> is the logging sink supplied to the object.
\<close>

record energy_outcome =
  returned :: "real list \<times> real list"
  printed :: "real list"
  logged :: "string list"

definition CalculateEnergyDistribution ::
  "(wavedata \<Rightarrow> wavedata) \<Rightarrow> state_tuple list \<Rightarrow> store \<Rightarrow> nat \<Rightarrow> real \<Rightarrow> real \<Rightarrow> real \<Rightarrow>
   py_error + energy_outcome" where
  "CalculateEnergyDistribution S states h psi minE maxE dE =
     (let messages = [''Now calculating dP/dE...''];
          (h', overlapPsi) = MultiplyOverlap S h psi
      in py_bind (r_slice minE maxE dE) (\<lambda>E.
         let energyDistr = replicate (length E) 0;
             totalIon = 0
         in py_bind (energy_loop (h' ! overlapPsi) E states (energyDistr, totalIon))
              (\<lambda>(energyDistr, totalIon).
                 let totalIon2 = sum_list energyDistr * dE;
                     out = [totalIon, totalIon2];
                     interpolateError = totalIon - totalIon2
                 in Inr \<lparr>returned = (E, energyDistr), printed = out, logged = messages\<rparr>)))"

section \<open>analysis.py: CoulombwaveAnalysis\<close>

text \<open>
  The object after \<open>__init__\<close> has no \<open>Eigenstate\<close> attribute; \<open>Setup\<close> assigns it.  The
  catalog built by \<open>coulombwaves.CoulombWaves.FromMultipleFiles\<close> is not among the
  sources: it enters as a parameter, and of its result only the charge \<open>Z\<close> is read.
\<close>

record CoulombWaves =
  CoulombWaves_Z :: real
  CoulombWaves_files :: "string list"

record CoulombwaveAnalysis =
  self_Config :: config
  self_BoundThreshold :: real
  self_m :: int
  self_Z :: real
  self_FileList :: "string list"
  self_Eigenstate :: "CoulombWaves option"

definition CoulombwaveAnalysis_init :: "config \<Rightarrow> real \<Rightarrow> string list \<Rightarrow> CoulombwaveAnalysis" where
  "CoulombwaveAnalysis_init conf Z fileList =
     \<lparr>self_Config = conf, self_BoundThreshold = 0, self_m = 0, self_Z = Z,
      self_FileList = fileList, self_Eigenstate = None\<rparr>"

definition Setup ::
  "(string list \<Rightarrow> py_error + CoulombWaves) \<Rightarrow> CoulombwaveAnalysis \<Rightarrow>
   CoulombwaveAnalysis \<times> (py_error + unit)" where
  "Setup FromMultipleFiles self =
     (case FromMultipleFiles (self_FileList self) of
        Inl e \<Rightarrow> (self, Inl e)
      | Inr cw \<Rightarrow>
          (let self' = self\<lparr>self_Eigenstate := Some cw\<rparr>
           in if CoulombWaves_Z cw = self_Z self' then (self', Inr ())
              else (self', Inl AssertionError)))"

section \<open>Basic facts\<close>

lemma py_bind_simps [simp]: "py_bind (Inl e) f = Inl e" "py_bind (Inr x) f = f x"
  by (simp_all add: py_bind_def)

lemma length_diff [simp]: "length (diff xs) = length xs - 1"
  by (induction xs rule: diff.induct) auto

lemma nth_diff: "Suc i < length xs \<Longrightarrow> diff xs ! i = xs ! Suc i - xs ! i"
proof (induction xs arbitrary: i rule: diff.induct)
  case (1 x y ys)
  then show ?case by (cases i) auto
qed auto

lemma getitem_nonneg: "i < length a \<Longrightarrow> getitem a (int i) = Inr (a ! i)"
  by (simp add: getitem_def)

lemma getitem_neg: "0 < k \<Longrightarrow> k \<le> length a \<Longrightarrow> getitem a (- int k) = Inr (a ! (length a - k))"
  by (auto simp add: getitem_def nat_diff_distrib' of_nat_diff)

lemma getitem_out: "length a \<le> i \<Longrightarrow> getitem a (int i) = Inl IndexError"
  by (simp add: getitem_def)

lemma getitem_1_short: "length a < 2 \<Longrightarrow> getitem a 1 = Inl IndexError"
  using getitem_out [of a 1] by simp

lemma getitem_1: "2 \<le> length a \<Longrightarrow> getitem a 1 = Inr (a ! 1)"
  using getitem_nonneg [of 1 a] by simp

lemma getitem_0: "2 \<le> length a \<Longrightarrow> getitem a 0 = Inr (a ! 0)"
  by (auto simp: getitem_def)

lemma getitem_m1: "2 \<le> length a \<Longrightarrow> getitem a (- 1) = Inr (a ! (length a - 1))"
  using getitem_neg [of 1 a] by simp

lemma getitem_m2: "2 \<le> length a \<Longrightarrow> getitem a (- 2) = Inr (a ! (length a - 2))"
  using getitem_neg [of 2 a] by simp

lemma length_interiorSpacing_energy [simp]: "length (interiorSpacing_energy curE) = length curE - 2"
  by (simp add: interiorSpacing_energy_def)

lemma nth_interiorSpacing_energy:
  assumes "Suc (Suc j) < length curE"
  shows "interiorSpacing_energy curE ! j = ((curE ! Suc j - curE ! j) + (curE ! Suc (Suc j) - curE ! Suc j)) / 2"
proof -
  have a: "diff (butlast curE) ! j = curE ! Suc j - curE ! j"
    using assms by (simp add: nth_diff nth_butlast)
  have b: "diff (tl curE) ! j = curE ! Suc (Suc j) - curE ! Suc j"
    using assms by (simp add: nth_diff nth_tl)
  show ?thesis
    using assms a b by (simp add: interiorSpacing_energy_def)
qed

lemma spacing_energy_long:
  assumes "2 \<le> length curE"
  shows "spacing_energy curE =
     Inr ([(curE ! 1 - curE ! 0) / 2] @ interiorSpacing_energy curE @
          [(curE ! (length curE - 1) - curE ! (length curE - 2)) / 2])"
  using assms
  by (simp add: spacing_energy_def interiorSpacing_energy_def getitem_1 getitem_0 getitem_m1 getitem_m2)

lemma spacing_energy_short: "length curE < 2 \<Longrightarrow> spacing_energy curE = Inl IndexError"
  by (simp add: spacing_energy_def getitem_1_short)

lemma spacing_angular_long:
  assumes "2 \<le> length curE"
  shows "spacing_angular curE =
     Inr ([curE ! 1 - curE ! 0] @ interiorSpacing_angular curE @
          [curE ! (length curE - 1) - curE ! (length curE - 2)])"
  using assms
  by (simp add: spacing_angular_def getitem_1 getitem_0 getitem_m1 getitem_m2)

lemma length_interiorSpacing_angular [simp]:
  "length (interiorSpacing_angular curE) = length curE - 2"
  by (simp add: interiorSpacing_angular_def)

lemma nth_interiorSpacing_angular:
  assumes "Suc (Suc j) < length curE"
  shows "interiorSpacing_angular curE ! j = curE ! Suc (Suc j) - curE ! Suc j"
  using assms by (simp add: interiorSpacing_angular_def nth_tl nth_diff)


lemma spacing_angular_short: "length curE < 2 \<Longrightarrow> spacing_angular curE = Inl IndexError"
  by (simp add: spacing_angular_def getitem_1_short)

lemma nth_mid:
  assumes "0 < i" "i < Suc (length ys)"
  shows "([x] @ ys @ [z]) ! i = ys ! (i - 1)"
  using assms by (cases i) (auto simp: nth_append)

lemma nth_end: "([x] @ ys @ [z]) ! Suc (length ys) = z"
  by (simp add: nth_append)

lemma energy_block_density:
  assumes "density_energy curE = Inr density"
  shows "energy_block overlapPsi E (angIdx, curE, curV, l, m) (energyDistr, totalIon) =
     py_bind (getitem overlapPsi angIdx) (\<lambda>psiSlice.
     py_bind (dot_conj curV psiSlice) (\<lambda>c.
     py_bind (broadcast2 (*) (map (\<lambda>z. (cmod z)\<^sup>2) c) density) (\<lambda>fp.
     py_bind (interp E curE fp 0 0) (\<lambda>dPdE.
     Inr (map2 (+) energyDistr dPdE, totalIon + sum_list (map (\<lambda>z. (cmod z)\<^sup>2) c))))))"
  using assms by (simp add: Let_def)


lemma py_bind_Inr_iff:
  "py_bind r f = Inr y \<longleftrightarrow> (\<exists>x. r = Inr x \<and> f x = Inr y)"
  by (cases r) auto

lemma density_energy_short: "length curE < 2 \<Longrightarrow> density_energy curE = Inl IndexError"
  by (simp add: density_energy_def spacing_energy_short)

lemma density_angular_short: "length curE < 2 \<Longrightarrow> density_angular curE = Inl IndexError"
  by (simp add: density_angular_def spacing_angular_short)

lemma energy_block_short:
  assumes "length curE < 2"
  shows "\<exists>e. energy_block overlapPsi E (angIdx, curE, curV, l, m) acc = Inl e"
proof (cases acc)
  case (Pair energyDistr totalIon)
  show ?thesis
  proof (cases "getitem overlapPsi angIdx")
    case (Inl e)
    then show ?thesis using Pair by simp
  next
    case (Inr psiSlice)
    then show ?thesis
      using Pair assms by (cases "dot_conj curV psiSlice") (simp_all add: density_energy_short)
  qed
qed

lemma energy_loop_short:
  assumes "(angIdx, curE, curV, l, m) \<in> set states" "length curE < 2"
  shows "\<exists>e. energy_loop overlapPsi E states acc = Inl e"
  using assms
proof (induction states arbitrary: acc)
  case Nil
  then show ?case by simp
next
  case (Cons b bs)
  show ?case
  proof (cases "energy_block overlapPsi E b acc")
    case (Inl e)
    then show ?thesis by simp
  next
    case (Inr acc')
    have "b \<noteq> (angIdx, curE, curV, l, m)"
      using Inr energy_block_short [OF Cons.prems(2), of overlapPsi E angIdx curV l m acc] by auto
    then have "(angIdx, curE, curV, l, m) \<in> set bs" using Cons.prems(1) by auto
    then show ?thesis using Cons.IH Cons.prems(2) Inr by simp
  qed
qed

lemma CalculateEnergyDistribution_short:
  assumes "(angIdx, curE, curV, l, m) \<in> set states" "length curE < 2"
  shows "\<exists>e. CalculateEnergyDistribution S states h psi minE maxE dE = Inl e"
proof (cases "r_slice minE maxE dE")
  case (Inl e)
  then show ?thesis by (simp add: CalculateEnergyDistribution_def Let_def split: prod.splits)
next
  case (Inr E)
  obtain h' overlapPsi where mo: "MultiplyOverlap S h psi = (h', overlapPsi)"
    by (cases "MultiplyOverlap S h psi")
  from energy_loop_short [OF assms]
  obtain e where "energy_loop (h' ! overlapPsi) E states (replicate (length E) 0, 0) = Inl e"
    by blast
  then show ?thesis using Inr mo by (simp add: CalculateEnergyDistribution_def)
qed

lemma interp_at_outside:
  assumes "xp \<noteq> []" "x < Min (set xp) \<or> Max (set xp) < x"
  shows "interp_at xp fp 0 0 x = 0"
proof -
  have "Min (set xp) \<le> hd xp" using assms(1) by simp
  moreover have "last xp \<le> Max (set xp)" using assms(1) by simp
  ultimately have "x < hd xp \<or> last xp < x" using assms(2) by linarith
  then show ?thesis by (auto simp: interp_at_def)
qed

lemma interp_outside:
  assumes "interp E curE fp 0 0 = Inr dPdE" "j < length E"
    "E ! j < Min (set curE) \<or> Max (set curE) < E ! j"
  shows "dPdE ! j = 0"
proof -
  have ne: "curE \<noteq> []" using assms(1) by (auto simp: interp_def split: if_splits)
  have "dPdE = map (interp_at curE fp 0 0) E"
    using assms(1) by (auto simp: interp_def split: if_splits)
  then show ?thesis using assms(2,3) ne by (simp add: interp_at_outside)
qed

lemma interp_length: "interp E curE fp left right = Inr dPdE \<Longrightarrow> length dPdE = length E"
  by (auto simp: interp_def split: if_splits)

lemma energy_block_Inr:
  assumes "energy_block overlapPsi E (angIdx, curE, curV, l, m) (energyDistr, totalIon) = Inr (d', t')"
  shows "\<exists>fp dPdE. interp E curE fp 0 0 = Inr dPdE \<and> d' = map2 (+) energyDistr dPdE"
  using assms by (auto simp: py_bind_Inr_iff Let_def)

lemma energy_block_outside:
  assumes "energy_block overlapPsi E (angIdx, curE, curV, l, m) (energyDistr, totalIon) = Inr (d', t')"
    "length energyDistr = length E" "j < length E"
    "E ! j < Min (set curE) \<or> Max (set curE) < E ! j"
  shows "d' ! j = energyDistr ! j \<and> length d' = length E"
proof -
  from energy_block_Inr [OF assms(1)]
  obtain fp dPdE where i: "interp E curE fp 0 0 = Inr dPdE" and d: "d' = map2 (+) energyDistr dPdE"
    by blast
  have l: "length dPdE = length E" using i by (rule interp_length)
  have "dPdE ! j = 0" using i assms(3,4) by (rule interp_outside)
  then show ?thesis using d l assms(2,3) by simp
qed

lemma energy_block_length:
  assumes "energy_block overlapPsi E b (energyDistr, totalIon) = Inr (d', t')"
    "length energyDistr = length E"
  shows "length d' = length E"
proof -
  obtain angIdx curE curV l m where b: "b = (angIdx, curE, curV, l, m)" by (cases b) auto
  from energy_block_Inr [OF assms(1) [unfolded b]]
  obtain fp dPdE where i: "interp E curE fp 0 0 = Inr dPdE" and d: "d' = map2 (+) energyDistr dPdE"
    by blast
  show ?thesis using d interp_length [OF i] assms(2) by simp
qed

lemma energy_loop_outside:
  assumes "energy_loop overlapPsi E states (energyDistr, totalIon) = Inr (d', t')"
    "length energyDistr = length E" "j < length E"
    "list_all (\<lambda>(angIdx, curE, curV, l, m). E ! j < Min (set curE) \<or> Max (set curE) < E ! j) states"
  shows "d' ! j = energyDistr ! j"
  using assms
proof (induction states arbitrary: energyDistr totalIon)
  case Nil
  then show ?case by simp
next
  case (Cons b bs)
  obtain angIdx curE curV l m where b: "b = (angIdx, curE, curV, l, m)" by (cases b) auto
  from Cons.prems(1) obtain d1 t1 where
    s1: "energy_block overlapPsi E b (energyDistr, totalIon) = Inr (d1, t1)"
    and s2: "energy_loop overlapPsi E bs (d1, t1) = Inr (d', t')"
    by (auto simp: py_bind_Inr_iff)
  have out: "E ! j < Min (set curE) \<or> Max (set curE) < E ! j"
    using Cons.prems(4) b by simp
  have k: "d1 ! j = energyDistr ! j \<and> length d1 = length E"
    using energy_block_outside [OF s1 [unfolded b] Cons.prems(2) Cons.prems(3) out] .
  have "d' ! j = d1 ! j"
    using Cons.IH [OF s2] k Cons.prems(3,4) by simp
  then show ?case using k by simp
qed

lemma r_slice_grid:
  assumes "minE < maxE" "0 < dE"
  shows "\<exists>E. r_slice minE maxE dE = Inr E \<and> int (length E) = \<lceil>(maxE - minE) / dE\<rceil> \<and>
     (\<forall>i<length E. E ! i = minE + real i * dE)"
proof -
  have "0 < (maxE - minE) / dE" using assms by simp
  then have "0 \<le> \<lceil>(maxE - minE) / dE\<rceil>" by linarith
  then show ?thesis using assms by (simp add: r_slice_def)
qed

lemma CalculateEnergyDistribution_Inr:
  assumes "CalculateEnergyDistribution S states h psi minE maxE dE = Inr out"
  shows "\<exists>E energyDistr totalIon.
     r_slice minE maxE dE = Inr E \<and>
     energy_loop (S (h ! psi)) E states (replicate (length E) 0, 0) = Inr (energyDistr, totalIon) \<and>
     returned out = (E, energyDistr) \<and>
     printed out = [totalIon, sum_list energyDistr * dE] \<and>
     logged out = [''Now calculating dP/dE...'']"
  using assms
  by (auto simp: CalculateEnergyDistribution_def MultiplyOverlap_def Copy_def
      Representation_MultiplyOverlap_def py_bind_Inr_iff Let_def)


lemma ceiling_ten_thirds: "\<lceil>(1 - 0) / (3 / 10 :: real)\<rceil> = 4"
  by (simp add: ceiling_eq_iff)

lemma upt_four: "[0 ..< 4] = [0, 1, 2, 3]"
  by (simp add: upt_conv_Cons eval_nat_numeral)

lemma replicate_four: "replicate 4 (0::real) = [0, 0, 0, 0]"
  by (simp add: eval_nat_numeral)

lemma CalculateEnergyDistribution_run:
  "CalculateEnergyDistribution (\<lambda>d. d) [(0, [1 / 2, 7 / 10], [[1], [1]], 0, 0)] [[[1]]] 0 0 1 (3 / 10) =
     Inr \<lparr>returned = ([0, 3 / 10, 3 / 5, 9 / 10], [0, 0, 10, 0]),
          printed = [2, 3], logged = [''Now calculating dP/dE...'']\<rparr>"
  by (simp add: CalculateEnergyDistribution_def MultiplyOverlap_def Copy_def
        Representation_MultiplyOverlap_def r_slice_def getitem_def vdot_def
        density_energy_def spacing_energy_def interiorSpacing_energy_def
        broadcast2_def interp_def interp_at_def ceiling_eq_iff upt_four replicate_four)


lemma energy_block_totalIon:
  assumes "energy_block overlapPsi E b (energyDistr, totalIon) = Inr (d', t')"
  shows "t' = totalIon + block_totalIon overlapPsi b"
proof -
  obtain angIdx curE curV l m where b: "b = (angIdx, curE, curV, l, m)" by (cases b) auto
  show ?thesis using assms unfolding b by (auto simp: py_bind_Inr_iff Let_def)
qed

lemma energy_loop_totalIon:
  assumes "energy_loop overlapPsi E states (energyDistr, totalIon) = Inr (d', t')"
  shows "t' = totalIon + sum_list (map (block_totalIon overlapPsi) states)"
  using assms
proof (induction states arbitrary: energyDistr totalIon)
  case Nil
  then show ?case by simp
next
  case (Cons b bs)
  from Cons.prems obtain d1 t1 where
    s1: "energy_block overlapPsi E b (energyDistr, totalIon) = Inr (d1, t1)"
    and s2: "energy_loop overlapPsi E bs (d1, t1) = Inr (d', t')"
    by (auto simp: py_bind_Inr_iff)
  show ?case using Cons.IH [OF s2] energy_block_totalIon [OF s1] by simp
qed

lemma take_indices_where:
  assumes "\<forall>i\<in>set is. i < length a"
  shows "take_indices a (map int is) = Inr (map (\<lambda>i. a ! i) is)"
  using assms by (induction "is") (simp_all add: getitem_nonneg)

lemma str_nat_digit: "n < 10 \<Longrightarrow> str_nat n = [digit n]"
  by (simp add: str_nat.simps)

subsection \<open>Dataset names and the stored file\<close>

lemma digit_cases: "d < 10 \<Longrightarrow> d = 0 \<or> d = Suc 0 \<or> d = 2 \<or> d = 3 \<or> d = 4 \<or> d = 5 \<or> d = 6 \<or> d = 7 \<or> d = 8 \<or> d = (9::nat)"
  by arith

lemma digit_code:
  assumes "d < 10"
  shows "(of_char (digit d) :: nat) = 48 + d"
  using digit_cases [OF assms] by (elim disjE) (simp_all add: digit_def eval_nat_numeral)

lemma digit_inj:
  assumes "a < 10" "b < 10" "digit a = digit b"
  shows "a = b"
proof -
  have "(of_char (digit a) :: nat) = of_char (digit b)" using assms(3) by simp
  then show ?thesis using digit_code [OF assms(1)] digit_code [OF assms(2)] by simp
qed

lemma digit_no_slash: "d < 10 \<Longrightarrow> digit d \<noteq> CHR ''/''"
proof
  assume "d < 10" "digit d = CHR ''/''"
  then have "(of_char (CHR ''/'') :: nat) = 48 + d" using digit_code [of d] by simp
  then show False by simp
qed

lemma str_nat_nonempty: "str_nat n \<noteq> []"
  by (subst str_nat.simps) simp

lemma str_nat_no_slash: "CHR ''/'' \<notin> set (str_nat n)"
proof (induction n rule: str_nat.induct)
  case (1 n)
  show ?case
  proof (cases "n < 10")
    case True
    then show ?thesis using digit_no_slash [of n] by (subst str_nat.simps) auto
  next
    case False
    have "n mod 10 < 10" by simp
    then have "digit (n mod 10) \<noteq> CHR ''/''" by (rule digit_no_slash)
    then show ?thesis using False 1 by (subst str_nat.simps) auto
  qed
qed

lemma str_nat_inj: "str_nat n = str_nat k \<Longrightarrow> n = k"
proof (induction n arbitrary: k rule: str_nat.induct)
  case (1 n)
  show ?case
  proof (cases "n < 10")
    case n: True
    show ?thesis
    proof (cases "k < 10")
      case True
      then show ?thesis using n 1(2) digit_inj [of n k] by (simp add: str_nat.simps [of n] str_nat.simps [of k])
    next
      case False
      then have "length (str_nat k) \<ge> 2"
        using str_nat_nonempty [of "k div 10"]
        by (subst str_nat.simps) (cases "str_nat (k div 10)", auto)
      moreover have "length (str_nat n) = 1" using n by (subst str_nat.simps) simp
      ultimately show ?thesis using 1(2) by simp
    qed
  next
    case n: False
    show ?thesis
    proof (cases "k < 10")
      case True
      have "length (str_nat n) \<ge> 2"
        using n str_nat_nonempty [of "n div 10"]
        by (subst str_nat.simps) (cases "str_nat (n div 10)", auto)
      moreover have "length (str_nat k) = 1" using True by (subst str_nat.simps) simp
      ultimately show ?thesis using 1(2) by simp
    next
      case False
      have "str_nat (n div 10) @ [digit (n mod 10)] = str_nat (k div 10) @ [digit (k mod 10)]"
        using 1(2) n False by (simp add: str_nat.simps [of n] str_nat.simps [of k])
      then have a: "str_nat (n div 10) = str_nat (k div 10)" and b: "digit (n mod 10) = digit (k mod 10)"
        by simp_all
      have "n div 10 = k div 10" using 1(1) [OF n a] .
      moreover have "n mod 10 = k mod 10" using digit_inj [OF _ _ b] by simp
      ultimately show ?thesis by (metis div_mult_mod_eq)
    qed
  qed
qed

lemma GetEigenvectorDatasetPath_inj:
  "GetEigenvectorDatasetPath i = GetEigenvectorDatasetPath j \<Longrightarrow> i = j"
  by (simp add: GetEigenvectorDatasetPath_def GetEigenvectorDatasetName_def str_nat_inj)

lemma GetEigenvectorDatasetPath_other:
  "GetEigenvectorDatasetPath i \<noteq> ''/Eig''"
  "GetEigenvectorDatasetPath i \<noteq> ''/Eig/Eigenvalues''"
  "GetEigenvectorDatasetPath i \<noteq> ''/Eig/ErrorEstimateListGMRES''"
  "GetEigenvectorDatasetPath i \<noteq> ''/Eig/ErrorEstimateListPIRAM''"
  "GetEigenvectorDatasetPath i \<noteq> ''/Eig/ConvergenceEstimateEig''"
  using str_nat_nonempty [of i]
  by (simp_all add: GetEigenvectorDatasetPath_def GetEigenvectorDatasetName_def
      GetEigenvectorGroupName_def)

lemma dirname_GetEigenvectorDatasetPath:
  "dirname (GetEigenvectorDatasetPath i) = ''/Eig''"
proof -
  have "\<And>c. c \<in> set (rev (str_nat i)) \<Longrightarrow> c \<noteq> CHR ''/''"
    using str_nat_no_slash [of i] by auto
  then have "dropWhile (\<lambda>c. c \<noteq> CHR ''/'') (rev (str_nat i) @ rev ''/Eig/Eigenvector_'') =
      dropWhile (\<lambda>c. c \<noteq> CHR ''/'') (rev ''/Eig/Eigenvector_'')"
    by (rule dropWhile_append2)
  then show ?thesis
    by (simp add: dirname_def GetEigenvectorDatasetPath_def GetEigenvectorDatasetName_def
        GetEigenvectorGroupName_def)
qed


lemma node_at_SaveWavefunctionHDF:
  "node_at (SaveWavefunctionHDF filename datasetPath psi w) filename path =
     (if path = datasetPath then Some (WaveData psi)
      else if path = dirname datasetPath then Some Group
      else node_at w filename path)"
  by (simp add: node_at_def SaveWavefunctionHDF_def empty_h5file_def Let_def split: option.splits)

lemma fs_SaveWavefunctionHDF: "fs (SaveWavefunctionHDF filename datasetPath psi w) filename \<noteq> None"
  by (simp add: SaveWavefunctionHDF_def Let_def)

lemma node_at_RemoveExistingDataset:
  "node_at (RemoveExistingDataset filename datasetPath w) filename path =
     (if path = datasetPath then None else node_at w filename path)"
  by (simp add: node_at_def RemoveExistingDataset_def split: option.splits)

lemma fs_RemoveExistingDataset:
  "fs (RemoveExistingDataset filename datasetPath w) filename = None \<longleftrightarrow> fs w filename = None"
  by (simp add: RemoveExistingDataset_def split: option.splits)

lemma store_eigenvectors_all:
  assumes "\<forall>i\<in>set is. i < length (Eigenvectors solver)"
  shows "\<exists>w'. store_eigenvectors solver filename is w = (w', Inr ()) \<and>
     (\<forall>i\<in>set is. node_at w' filename (GetEigenvectorDatasetPath i) =
        Some (WaveData (Eigenvectors solver ! i))) \<and>
     (is \<noteq> [] \<longrightarrow> node_at w' filename ''/Eig'' = Some Group \<and> fs w' filename \<noteq> None) \<and>
     (\<forall>path. path \<noteq> ''/Eig'' \<and> (\<forall>i\<in>set is. path \<noteq> GetEigenvectorDatasetPath i) \<longrightarrow>
        node_at w' filename path = node_at w filename path) \<and>
     (fs w filename \<noteq> None \<longrightarrow> fs w' filename \<noteq> None)"
  using assms
proof (induction "is" arbitrary: w)
  case Nil
  show ?case by simp
next
  case (Cons i "is")
  let ?p = "GetEigenvectorDatasetPath i"
  let ?w1 = "SaveWavefunctionHDF filename ?p (Eigenvectors solver ! i) w"
  have i: "i < length (Eigenvectors solver)" using Cons.prems by simp
  have rest: "\<forall>k\<in>set is. k < length (Eigenvectors solver)" using Cons.prems by simp
  from Cons.IH [OF rest, of ?w1] obtain w' where
    r: "store_eigenvectors solver filename is ?w1 = (w', Inr ())"
    and stored: "\<forall>k\<in>set is. node_at w' filename (GetEigenvectorDatasetPath k) =
        Some (WaveData (Eigenvectors solver ! k))"
    and grp: "is \<noteq> [] \<longrightarrow> node_at w' filename ''/Eig'' = Some Group \<and> fs w' filename \<noteq> None"
    and frame: "\<forall>path. path \<noteq> ''/Eig'' \<and> (\<forall>k\<in>set is. path \<noteq> GetEigenvectorDatasetPath k) \<longrightarrow>
        node_at w' filename path = node_at ?w1 filename path"
    and ex: "fs ?w1 filename \<noteq> None \<longrightarrow> fs w' filename \<noteq> None"
    by blast
  have run: "store_eigenvectors solver filename (i # is) w = (w', Inr ())"
    using r i by (simp add: getitem_nonneg)
  have ex': "fs w' filename \<noteq> None" using ex fs_SaveWavefunctionHDF by blast
  have here: "node_at w' filename ?p = Some (WaveData (Eigenvectors solver ! i))"
  proof (cases "i \<in> set is")
    case True
    then show ?thesis using stored by blast
  next
    case False
    then have "\<forall>k\<in>set is. ?p \<noteq> GetEigenvectorDatasetPath k"
      using GetEigenvectorDatasetPath_inj by blast
    then have "node_at w' filename ?p = node_at ?w1 filename ?p"
      using frame GetEigenvectorDatasetPath_other(1) by blast
    then show ?thesis by (simp add: node_at_SaveWavefunctionHDF)
  qed
  have grp': "node_at w' filename ''/Eig'' = Some Group"
  proof (cases "is = []")
    case True
    then have "w' = ?w1" using r by simp
    then show ?thesis
      using GetEigenvectorDatasetPath_other(1) [of i]
      by (simp add: node_at_SaveWavefunctionHDF dirname_GetEigenvectorDatasetPath)
  next
    case False
    then show ?thesis using grp by blast
  qed
  have frame': "node_at w' filename path = node_at w filename path"
    if "path \<noteq> ''/Eig''" "\<forall>k\<in>set (i # is). path \<noteq> GetEigenvectorDatasetPath k" for path
  proof -
    have "node_at w' filename path = node_at ?w1 filename path" using frame that by simp
    also have "\<dots> = node_at w filename path"
      using that by (simp add: node_at_SaveWavefunctionHDF dirname_GetEigenvectorDatasetPath)
    finally show ?thesis .
  qed
  show ?case
    using run here stored grp' ex' frame' by (intro exI [of _ w']) auto
qed

lemma store_arrays_nodes:
  assumes "nodes h5 ''/Eig'' = Some Group"
  shows "\<exists>h5'. store_arrays solver shiftInvertSolver E h5 = Inr h5' \<and>
     nodes h5' ''/Eig/Eigenvalues'' = Some (RealArray E) \<and>
     (\<forall>i. nodes h5' (GetEigenvectorDatasetPath i) = nodes h5 (GetEigenvectorDatasetPath i))"
  using assms GetEigenvectorDatasetPath_other
  by (simp add: store_arrays_def GetEigenvectorGroupName_def createArray_def set_attr_def)


lemma FindEigenvalues_result:
  assumes "length (GetConvergenceEstimates solver) \<le> length (GetEigenvalues solver)"
  shows "FindEigenvaluesInverseIterationsPiram conf solver shiftInvertSolver =
     Inr (solver, shiftInvertSolver,
          map (\<lambda>i. 1 / GetEigenvalues solver ! i + Eigenvalues_shift conf)
            (filter (\<lambda>i. GetConvergenceEstimates solver ! i < 0)
               [0 ..< length (GetConvergenceEstimates solver)]))"
proof -
  let ?ev = "GetEigenvalues solver"
  let ?est = "GetConvergenceEstimates solver"
  let ?idx = "filter (\<lambda>i. ?est ! i < 0) [0 ..< length ?est]"
  have "\<forall>i\<in>set ?idx. i < length ?ev" using assms by auto
  then have t: "take_indices ?ev (where_negative ?est) = Inr (map (\<lambda>i. ?ev ! i) ?idx)"
    unfolding where_negative_def by (rule take_indices_where)
  show ?thesis
    by (simp add: FindEigenvaluesInverseIterationsPiram_def t Let_def comp_def)
qed

lemma SaveEigenpairs_result:
  assumes "GetEigenvalues solver \<noteq> []"
    "length (Eigenvectors solver) = length (GetEigenvalues solver)"
  shows "\<exists>w'. SaveEigenpairsSolverShiftInvert str normpath 0 LmIndices solver shiftInvertSolver w =
       (w', Inr ()) \<and>
     node_at w'
       (NameGeneratorBoundstates str normpath (BaseProblem_Config solver)
          (sort (remdups (map fst LmIndices))) (sort (remdups (map snd LmIndices))))
       ''/Eig/Eigenvalues'' =
       Some (RealArray (map (\<lambda>x. 1 / x + Eigenvalues_shift (BaseProblem_Config solver))
                          (GetEigenvalues solver))) \<and>
     (\<forall>i<length (GetEigenvalues solver).
        node_at w'
          (NameGeneratorBoundstates str normpath (BaseProblem_Config solver)
             (sort (remdups (map fst LmIndices))) (sort (remdups (map snd LmIndices))))
          (GetEigenvectorDatasetPath i) = Some (WaveData (Eigenvectors solver ! i)))"
proof -
  define filename where "filename = NameGeneratorBoundstates str normpath (BaseProblem_Config solver)
          (sort (remdups (map fst LmIndices))) (sort (remdups (map snd LmIndices)))"
  define E where "E = map (\<lambda>x. 1 / x + Eigenvalues_shift (BaseProblem_Config solver))
                          (GetEigenvalues solver)"
  define w1 where "w1 = (if fs w filename \<noteq> None \<and> (0::nat) = 0
                then w\<lparr>fs := (fs w)(filename := None)\<rparr> else w)"
  define w2 where "w2 = logger INFO ''Now storing eigenvectors...'' w1"
  have len: "length E = length (GetEigenvalues solver)" by (simp add: E_def)
  have ne: "[0 ..< length E] \<noteq> []" using assms(1) len by simp
  have "\<forall>i\<in>set [0 ..< length E]. i < length (Eigenvectors solver)"
    using assms(2) len by simp
  from store_eigenvectors_all [OF this, of filename w2] ne
  obtain w3 where
    r3: "store_eigenvectors solver filename [0 ..< length E] w2 = (w3, Inr ())"
    and st3: "\<forall>i\<in>set [0 ..< length E]. node_at w3 filename (GetEigenvectorDatasetPath i) =
        Some (WaveData (Eigenvectors solver ! i))"
    and g3: "node_at w3 filename ''/Eig'' = Some Group" and f3: "fs w3 filename \<noteq> None"
    by blast
  define w4 where "w4 =
     RemoveExistingDataset filename (GetEigenvectorGroupName @ ''/ConvergenceEstimateEig'')
       (RemoveExistingDataset filename (GetEigenvectorGroupName @ ''/ErrorEstimateListPIRAM'')
       (RemoveExistingDataset filename (GetEigenvectorGroupName @ ''/ErrorEstimateListGMRES'')
       (RemoveExistingDataset filename (GetEigenvectorGroupName @ ''/Eigenvalues'') w3)))"
  have f4: "fs w4 filename \<noteq> None"
    using f3 by (simp add: w4_def fs_RemoveExistingDataset)
  then obtain h5 where h5: "fs w4 filename = Some h5" by blast
  have n4: "nodes h5 path = node_at w4 filename path" for path
    using h5 by (simp add: node_at_def)
  have g4: "nodes h5 ''/Eig'' = Some Group"
    using g3 by (simp add: n4 w4_def node_at_RemoveExistingDataset GetEigenvectorGroupName_def)
  have st4: "nodes h5 (GetEigenvectorDatasetPath i) = Some (WaveData (Eigenvectors solver ! i))"
    if "i < length E" for i
    using st3 that GetEigenvectorDatasetPath_other [of i]
    by (simp add: n4 w4_def node_at_RemoveExistingDataset GetEigenvectorGroupName_def)
  from store_arrays_nodes [OF g4, of solver shiftInvertSolver E]
  obtain h5' where a: "store_arrays solver shiftInvertSolver E h5 = Inr h5'"
    and ev: "nodes h5' ''/Eig/Eigenvalues'' = Some (RealArray E)"
    and same: "\<forall>i. nodes h5' (GetEigenvectorDatasetPath i) = nodes h5 (GetEigenvectorDatasetPath i)"
    by blast
  define w5 where "w5 = w4\<lparr>fs := (fs w4)(filename \<mapsto> h5')\<rparr>"
  have run: "SaveEigenpairsSolverShiftInvert str normpath 0 LmIndices solver shiftInvertSolver w =
       (w5, Inr ())"
    using r3 h5 a
    unfolding w5_def w4_def w2_def w1_def E_def filename_def
      SaveEigenpairsSolverShiftInvert_def Let_def
    by simp
  have n5: "node_at w5 filename path = nodes h5' path" for path
    by (simp add: node_at_def w5_def)
  have "node_at w5 filename ''/Eig/Eigenvalues'' = Some (RealArray E)"
    using ev by (simp add: n5)
  moreover have "\<forall>i<length (GetEigenvalues solver).
      node_at w5 filename (GetEigenvectorDatasetPath i) = Some (WaveData (Eigenvectors solver ! i))"
    using st4 same len by (simp add: n5)
  ultimately show ?thesis
    using run unfolding filename_def E_def by blast
qed


section \<open>Density of states in the energy distribution\<close>

text \<open>
  Claim C4.  In \<open>CalculateEnergyDistribution\<close>, for a block whose energy list has at
  least two entries the density of states is computed without an exception and has one
  entry per energy: the reciprocal of half the first spacing at the first point, of half
  the last spacing at the last point, and of the average of the two neighbouring
  spacings at every interior point.  The loop body multiplies the squared projections
  by exactly this array before interpolating.
\<close>

theorem density_energy_local_spacing:
  assumes "2 \<le> length curE"
  shows "\<exists>density. density_energy curE = Inr density \<and> length density = length curE \<and>
     density ! 0 = 1 / ((curE ! 1 - curE ! 0) / 2) \<and>
     density ! (length curE - 1) =
       1 / ((curE ! (length curE - 1) - curE ! (length curE - 2)) / 2) \<and>
     (\<forall>i. 0 < i \<and> i < length curE - 1 \<longrightarrow>
        density ! i = 1 / (((curE ! i - curE ! (i - 1)) + (curE ! (i + 1) - curE ! i)) / 2)) \<and>
     energy_block overlapPsi E (angIdx, curE, curV, l, m) (energyDistr, totalIon) =
       py_bind (getitem overlapPsi angIdx) (\<lambda>psiSlice.
       py_bind (dot_conj curV psiSlice) (\<lambda>c.
       py_bind (broadcast2 (*) (map (\<lambda>z. (cmod z)\<^sup>2) c) density) (\<lambda>fp.
       py_bind (interp E curE fp 0 0) (\<lambda>dPdE.
       Inr (map2 (+) energyDistr dPdE, totalIon + sum_list (map (\<lambda>z. (cmod z)\<^sup>2) c))))))"
proof -
  define n where "n = length curE"
  define sp where "sp = [(curE ! 1 - curE ! 0) / 2] @ interiorSpacing_energy curE @
     [(curE ! (length curE - 1) - curE ! (length curE - 2)) / 2]"
  define d where "d = map (\<lambda>s. 1 / s) sp"
  have len: "length sp = n" using assms by (simp add: sp_def n_def)
  have nth_d: "d ! i = 1 / sp ! i" if "i < n" for i
    using that len by (simp add: d_def)
  have dens: "density_energy curE = Inr d"
    using assms by (simp add: density_energy_def spacing_energy_long sp_def d_def)
  have sp0: "sp ! 0 = (curE ! 1 - curE ! 0) / 2" by (simp add: sp_def)
  have e: "n - 1 = Suc (length (interiorSpacing_energy curE))" using assms by (simp add: n_def)
  have "sp ! Suc (length (interiorSpacing_energy curE)) =
      (curE ! (length curE - 1) - curE ! (length curE - 2)) / 2"
    unfolding sp_def by (rule nth_end)
  then have spl: "sp ! (n - 1) = (curE ! (length curE - 1) - curE ! (length curE - 2)) / 2"
    using e by simp
  have mid: "sp ! i = ((curE ! i - curE ! (i - 1)) + (curE ! (i + 1) - curE ! i)) / 2"
    if "0 < i" "i < n - 1" for i
  proof -
    obtain j where j: "i = Suc j" using \<open>0 < i\<close> by (cases i) auto
    have "sp ! i = interiorSpacing_energy curE ! (i - 1)"
      unfolding sp_def using that by (intro nth_mid) (auto simp: n_def)
    also have "\<dots> = ((curE ! Suc j - curE ! j) + (curE ! Suc (Suc j) - curE ! Suc j)) / 2"
      using that j by (simp add: nth_interiorSpacing_energy n_def)
    finally show ?thesis using j by simp
  qed
  have n2: "2 \<le> n" using assms by (simp add: n_def)
  have "d ! 0 = 1 / sp ! 0" by (rule nth_d) (use n2 in simp)
  then have d0: "d ! 0 = 1 / ((curE ! 1 - curE ! 0) / 2)" by (simp only: sp0)
  have "d ! (n - 1) = 1 / sp ! (n - 1)" by (rule nth_d) (use n2 in simp)
  then have dl: "d ! (length curE - 1) =
      1 / ((curE ! (length curE - 1) - curE ! (length curE - 2)) / 2)"
    by (simp only: spl) (simp only: n_def)
  have dm: "\<forall>i. 0 < i \<and> i < length curE - 1 \<longrightarrow>
        d ! i = 1 / (((curE ! i - curE ! (i - 1)) + (curE ! (i + 1) - curE ! i)) / 2)"
  proof (intro allI impI)
    fix i assume i: "0 < i \<and> i < length curE - 1"
    then have i': "0 < i" "i < n - 1" by (simp_all add: n_def)
    then have "d ! i = 1 / sp ! i" by (intro nth_d) simp
    then show "d ! i = 1 / (((curE ! i - curE ! (i - 1)) + (curE ! (i + 1) - curE ! i)) / 2)"
      by (simp only: mid [OF i'])
  qed
  have "length d = length curE" using len by (simp add: d_def n_def)
  with d0 dl dm
  show ?thesis using dens energy_block_density [OF dens] by blast
qed


theorem density_energy_local_spacing_witness:
  "2 \<le> length [0, 1, 3 :: real] \<and>
   (\<exists>density. density_energy [0, 1, 3] = Inr density \<and> length density = 3 \<and>
      density ! 0 = 2 \<and> density ! 1 = 2 / 3 \<and> density ! 2 = 1)"
proof -
  have h: "2 \<le> length [0, 1, 3 :: real]" by simp
  from density_energy_local_spacing [OF h]
  obtain density where d: "density_energy [0, 1, 3] = Inr density"
    "length density = length [0, 1, 3 :: real]"
    "density ! 0 = 1 / (([0, 1, 3 :: real] ! 1 - [0, 1, 3] ! 0) / 2)"
    "density ! (length [0, 1, 3 :: real] - 1) =
       1 / (([0, 1, 3 :: real] ! (length [0, 1, 3 :: real] - 1) -
             [0, 1, 3] ! (length [0, 1, 3 :: real] - 2)) / 2)"
    "\<forall>i. 0 < i \<and> i < length [0, 1, 3 :: real] - 1 \<longrightarrow>
        density ! i = 1 / ((([0, 1, 3 :: real] ! i - [0, 1, 3] ! (i - 1)) +
                            ([0, 1, 3] ! (i + 1) - [0, 1, 3] ! i)) / 2)"
    by blast
  from d(5) have "density ! 1 = 1 / ((([0, 1, 3 :: real] ! 1 - [0, 1, 3] ! (1 - 1)) +
      ([0, 1, 3] ! (1 + 1) - [0, 1, 3] ! 1)) / 2)"
    by simp
  then have "density ! 1 = 2 / 3" by simp
  moreover have "density ! 0 = 2" using d(3) by simp
  moreover have "density ! 2 = 1" using d(4) by (simp add: eval_nat_numeral)
  moreover have "length density = 3" using d(2) by simp
  ultimately show ?thesis using d(1) h by blast
qed


section \<open>Density of states in the angular distribution\<close>

text \<open>
  Claim C3 says that \<open>CalculateAngularDistribution\<close> weights with the same density of
  states as \<open>CalculateEnergyDistribution\<close>: the reciprocal of half the edge spacing at
  the two boundary points and of the symmetric difference at interior points.  The
  code of lines 264--268 does not: on the energies \<open>0, 1, 3\<close> the sibling block of lines
  159--164 builds the spacings \<open>1/2, 3/2, 1\<close> (they add up to the width \<open>3\<close> of the
  block), while the angular block builds \<open>1, 2, 2\<close> (full edge spacings and forward
  differences, adding up to \<open>5\<close>), so that neither its weights \<open>1 / sqrt(spacing)\<close> nor
  their squares agree with the density \<open>2, 2/3, 1\<close> of the energy distribution.
\<close>

theorem angular_density_differs:
  "spacing_energy [0, 1, 3] = Inr [1 / 2, 3 / 2, 1] \<and>
   spacing_angular [0, 1, 3] = Inr [1, 2, 2] \<and>
   density_energy [0, 1, 3] = Inr [2, 2 / 3, 1] \<and>
   density_angular [0, 1, 3] = Inr [1, 1 / sqrt 2, 1 / sqrt 2] \<and>
   density_angular [0, 1, 3] \<noteq> density_energy [0, 1, 3]"
  by (simp add: density_energy_def density_angular_def spacing_energy_def spacing_angular_def
      interiorSpacing_energy_def interiorSpacing_angular_def getitem_def)

section \<open>Index accesses of the density of states\<close>

text \<open>
  Claim C10.  Both density computations read \<open>curE[1]\<close>, \<open>curE[0]\<close>, \<open>curE[-1]\<close> and
  \<open>curE[-2]\<close>.  With at least two energies in the block all four reads are in bounds and
  both densities are returned.  With fewer than two, \<open>curE[1]\<close> raises \<open>IndexError\<close>, so
  do both density computations, and \<open>CalculateEnergyDistribution\<close> over a catalog that
  contains such a block raises instead of returning.
\<close>

theorem density_of_states_index_bounds:
  "(2 \<le> length curE \<longrightarrow>
      getitem curE 1 = Inr (curE ! 1) \<and> getitem curE 0 = Inr (curE ! 0) \<and>
      getitem curE (- 1) = Inr (curE ! (length curE - 1)) \<and>
      getitem curE (- 2) = Inr (curE ! (length curE - 2)) \<and>
      (\<exists>d. density_energy curE = Inr d) \<and> (\<exists>d. density_angular curE = Inr d)) \<and>
   (length curE < 2 \<longrightarrow>
      getitem curE 1 = Inl IndexError \<and>
      density_energy curE = Inl IndexError \<and> density_angular curE = Inl IndexError \<and>
      ((angIdx, curE, curV, l, m) \<in> set states \<longrightarrow>
         (\<exists>e. CalculateEnergyDistribution S states h psi minE maxE dE = Inl e)))"
proof (intro conjI impI)
  assume "2 \<le> length curE"
  then show "\<exists>d. density_energy curE = Inr d"
    by (simp add: density_energy_def spacing_energy_long)
next
  assume "2 \<le> length curE"
  then show "\<exists>d. density_angular curE = Inr d"
    by (simp add: density_angular_def spacing_angular_long)
next
  assume "length curE < 2" "(angIdx, curE, curV, l, m) \<in> set states"
  then show "\<exists>e. CalculateEnergyDistribution S states h psi minE maxE dE = Inl e"
    by (intro CalculateEnergyDistribution_short)
qed (simp_all add: getitem_1 getitem_0 getitem_m1 getitem_m2 getitem_1_short
      density_energy_short density_angular_short)

theorem density_of_states_index_bounds_witness:
  "2 \<le> length [0, 1, 3 :: real] \<and> getitem [0, 1, 3 :: real] (- 2) = Inr 1 \<and>
   (\<exists>d. density_energy [0, 1, 3] = Inr d) \<and> (\<exists>d. density_angular [0, 1, 3] = Inr d) \<and>
   length [5 :: real] < 2 \<and> density_energy [5] = Inl IndexError \<and>
   density_angular [5] = Inl IndexError \<and>
   (0, [5], [[1]], 0, 0) \<in> set [(0, [5], [[1]], 0, 0) :: state_tuple] \<and>
   CalculateEnergyDistribution (\<lambda>d. d) [(0, [5], [[1]], 0, 0)] [[[1]]] 0 0 1 1 = Inl IndexError"
proof -
  have a: "2 \<le> length [0, 1, 3 :: real]" by simp
  have b: "length [5 :: real] < 2" by simp
  have c: "(0, [5], [[1]], 0, 0) \<in> set [(0, [5], [[1]], 0, 0) :: state_tuple]" by simp
  note t1 = density_of_states_index_bounds [of "[0, 1, 3]" 0 "[]" 0 0 "[]" "\<lambda>d. d" "[]" 0 0 0 0]
  note t2 = density_of_states_index_bounds
    [of "[5]" 0 "[[1]]" 0 0 "[(0, [5], [[1]], 0, 0)]" "\<lambda>d. d" "[[[1]]]" 0 0 1 1]
  have "getitem [0, 1, 3 :: real] (- 2) = Inr 1" using t1 a by simp
  moreover have "\<exists>d. density_energy [0, 1, 3] = Inr d" using t1 a by blast
  moreover have "\<exists>d. density_angular [0, 1, 3] = Inr d" using t1 a by blast
  moreover have "density_energy [5] = Inl IndexError" using t2 b by blast
  moreover have "density_angular [5] = Inl IndexError" using t2 b by blast
  moreover have "\<exists>e. CalculateEnergyDistribution (\<lambda>d. d) [(0, [5], [[1]], 0, 0)] [[[1]]] 0 0 1 1 = Inl e"
    using t2 b c by blast
  moreover have "CalculateEnergyDistribution (\<lambda>d. d) [(0, [5], [[1]], 0, 0)] [[[1]]] 0 0 1 1 = Inl e
      \<Longrightarrow> e = IndexError" for e
    by (simp add: CalculateEnergyDistribution_def MultiplyOverlap_def Copy_def
        Representation_MultiplyOverlap_def r_slice_def getitem_def vdot_def
        density_energy_def spacing_energy_def interiorSpacing_energy_def)
  ultimately show ?thesis using a b c by blast
qed



section \<open>The energy grid and the range of the interpolation\<close>

text \<open>
  Claim C8.  For \<open>minE < maxE\<close> and \<open>dE > 0\<close> the grid is built without an exception, has
  \<open>ceil((maxE - minE) / dE)\<close> points, the \<open>i\<close>-th being \<open>minE + i * dE\<close>, and it is the
  first component of whatever \<open>CalculateEnergyDistribution\<close> returns.  The loop body
  leaves the accumulated distribution unchanged at every grid energy below the smallest
  or above the largest energy of its block, and the returned distribution is zero at a
  grid energy that lies outside the range of every block.
\<close>

theorem energy_grid_and_no_extrapolation:
  assumes "minE < maxE" "0 < dE"
  shows "\<exists>E. r_slice minE maxE dE = Inr E \<and>
     int (length E) = \<lceil>(maxE - minE) / dE\<rceil> \<and>
     (\<forall>i<length E. E ! i = minE + real i * dE) \<and>
     (\<forall>out. CalculateEnergyDistribution S states h psi minE maxE dE = Inr out \<longrightarrow>
        fst (returned out) = E \<and>
        (\<forall>j<length E.
           list_all (\<lambda>(angIdx, curE, curV, l, m).
              E ! j < Min (set curE) \<or> Max (set curE) < E ! j) states \<longrightarrow>
           snd (returned out) ! j = 0)) \<and>
     (\<forall>angIdx curE curV l m energyDistr totalIon d' t'.
        energy_block overlapPsi E (angIdx, curE, curV, l, m) (energyDistr, totalIon) = Inr (d', t') \<and>
        length energyDistr = length E \<longrightarrow>
        (\<forall>j<length E. E ! j < Min (set curE) \<or> Max (set curE) < E ! j \<longrightarrow>
           d' ! j = energyDistr ! j))"
proof -
  from r_slice_grid [OF assms] obtain E where
    E: "r_slice minE maxE dE = Inr E" "int (length E) = \<lceil>(maxE - minE) / dE\<rceil>"
      "\<forall>i<length E. E ! i = minE + real i * dE"
    by blast
  have whole: "fst (returned out) = E \<and>
        (\<forall>j<length E.
           list_all (\<lambda>(angIdx, curE, curV, l, m).
              E ! j < Min (set curE) \<or> Max (set curE) < E ! j) states \<longrightarrow>
           snd (returned out) ! j = 0)"
    if r: "CalculateEnergyDistribution S states h psi minE maxE dE = Inr out" for out
  proof -
    from CalculateEnergyDistribution_Inr [OF r] E(1)
    obtain energyDistr totalIon where
      lp: "energy_loop (S (h ! psi)) E states (replicate (length E) 0, 0) = Inr (energyDistr, totalIon)"
      and ret: "returned out = (E, energyDistr)"
      by auto
    have "energyDistr ! j = 0"
      if "j < length E" "list_all (\<lambda>(angIdx, curE, curV, l, m).
              E ! j < Min (set curE) \<or> Max (set curE) < E ! j) states" for j
      using energy_loop_outside [OF lp _ that] that(1) by simp
    then show ?thesis using ret by simp
  qed
  have block: "d' ! j = energyDistr ! j"
    if "energy_block overlapPsi E (angIdx, curE, curV, l, m) (energyDistr, totalIon) = Inr (d', t')"
      "length energyDistr = length E" "j < length E"
      "E ! j < Min (set curE) \<or> Max (set curE) < E ! j"
    for angIdx curE curV l m energyDistr totalIon d' t' j
    using energy_block_outside [OF that] by simp
  show ?thesis
    using E whole block by (intro exI [of _ E]) blast
qed

theorem energy_grid_and_no_extrapolation_witness:
  "(0 :: real) < 1 \<and> (0 :: real) < 3 / 10 \<and>
   (\<exists>E. r_slice 0 1 (3 / 10) = Inr E \<and> int (length E) = 4 \<and>
      E ! 0 = 0 \<and> E ! 1 = 3 / 10 \<and> E ! 2 = 3 / 5 \<and> E ! 3 = 9 / 10 \<and>
      (\<exists>energyDistr.
         CalculateEnergyDistribution (\<lambda>d. d) [(0, [1 / 2, 7 / 10], [[1], [1]], 0, 0)] [[[1]]] 0 0 1 (3 / 10) =
           Inr \<lparr>returned = (E, energyDistr), printed = [2, 3],
                 logged = [''Now calculating dP/dE...'']\<rparr> \<and>
         energyDistr ! 0 = 0 \<and> energyDistr ! 1 = 0 \<and> energyDistr ! 2 = 10 \<and> energyDistr ! 3 = 0))"
proof -
  have h1: "(0 :: real) < 1" and h2: "(0 :: real) < 3 / 10" by simp_all
  let ?states = "[(0, [1 / 2, 7 / 10], [[1], [1]], 0, 0)] :: state_tuple list"
  let ?out = "\<lparr>returned = ([0, 3 / 10, 3 / 5, 9 / 10], [0, 0, 10, 0]),
          printed = [2, 3], logged = [''Now calculating dP/dE...'']\<rparr> :: energy_outcome"
  from energy_grid_and_no_extrapolation [OF h1 h2, of "\<lambda>d. d" ?states "[[[1]]]" 0 "[]"]
  obtain E where E: "r_slice 0 1 (3 / 10) = Inr E" "int (length E) = \<lceil>(1 - 0) / (3 / 10 :: real)\<rceil>"
    and w: "\<forall>out. CalculateEnergyDistribution (\<lambda>d. d) ?states [[[1]]] 0 0 1 (3 / 10) = Inr out \<longrightarrow>
        fst (returned out) = E \<and>
        (\<forall>j<length E.
           list_all (\<lambda>(angIdx, curE, curV, l, m).
              E ! j < Min (set curE) \<or> Max (set curE) < E ! j) ?states \<longrightarrow>
           snd (returned out) ! j = 0)"
    by blast
  from w CalculateEnergyDistribution_run have f: "fst (returned ?out) = E"
    and z: "\<forall>j<length E.
           list_all (\<lambda>(angIdx, curE, curV, l, m).
              E ! j < Min (set curE) \<or> Max (set curE) < E ! j) ?states \<longrightarrow>
           snd (returned ?out) ! j = 0"
    by blast+
  have Eeq: "E = [0, 3 / 10, 3 / 5, 9 / 10]" using f by simp
  have len: "int (length E) = 4" using E(2) by (simp add: ceiling_ten_thirds)
  have z0: "snd (returned ?out) ! 0 = 0" using z [rule_format, of 0] by (simp add: Eeq)
  have z1: "snd (returned ?out) ! 1 = 0" using z [rule_format, of 1] by (simp add: Eeq)
  have z3: "snd (returned ?out) ! 3 = 0" using z [rule_format, of 3] by (simp add: Eeq)
  show ?thesis
    using h1 h2 E(1) len CalculateEnergyDistribution_run z0 z1 z3 unfolding Eeq
    by (intro conjI exI [of _ "[0, 3 / 10, 3 / 5, 9 / 10]"] exI [of _ "[0, 0, 10, 0]"]) simp_all
qed


section \<open>The interpolation diagnostic\<close>

text \<open>
  Claim C2, as the code has it.  Whenever \<open>CalculateEnergyDistribution\<close> returns, it
  returns the pair \<open>(E, energyDistr)\<close> and nothing else; the two \<open>print\<close> statements emit
  the total projected probability \<open>totalIon\<close> and the re-integrated spectrum
  \<open>sum(energyDistr) * dE\<close>.  Their difference \<open>interpolateError\<close> is assigned to a local
  variable that is neither returned nor printed.
\<close>

theorem energy_distribution_diagnostic_printed:
  "CalculateEnergyDistribution S states h psi minE maxE dE = Inr out \<longrightarrow>
     (\<exists>E energyDistr. r_slice minE maxE dE = Inr E \<and> returned out = (E, energyDistr) \<and>
        printed out = [sum_list (map (block_totalIon (S (h ! psi))) states),
                       sum_list energyDistr * dE] \<and>
        logged out = [''Now calculating dP/dE...''])"
proof
  assume r: "CalculateEnergyDistribution S states h psi minE maxE dE = Inr out"
  from CalculateEnergyDistribution_Inr [OF r]
  obtain E energyDistr totalIon where
    E: "r_slice minE maxE dE = Inr E"
    and lp: "energy_loop (S (h ! psi)) E states (replicate (length E) 0, 0) = Inr (energyDistr, totalIon)"
    and ret: "returned out = (E, energyDistr)"
    and pr: "printed out = [totalIon, sum_list energyDistr * dE]"
    and lg: "logged out = [''Now calculating dP/dE...'']"
    by blast
  have "totalIon = sum_list (map (block_totalIon (S (h ! psi))) states)"
    using energy_loop_totalIon [OF lp] by simp
  then show "\<exists>E energyDistr. r_slice minE maxE dE = Inr E \<and> returned out = (E, energyDistr) \<and>
        printed out = [sum_list (map (block_totalIon (S (h ! psi))) states),
                       sum_list energyDistr * dE] \<and>
        logged out = [''Now calculating dP/dE...'']"
    using E ret pr lg by blast
qed

theorem energy_distribution_diagnostic_printed_witness:
  "CalculateEnergyDistribution (\<lambda>d. d) [(0, [1 / 2, 7 / 10], [[1], [1]], 0, 0)] [[[1]]] 0 0 1 (3 / 10) =
     Inr \<lparr>returned = ([0, 3 / 10, 3 / 5, 9 / 10], [0, 0, 10, 0]),
          printed = [2, 3], logged = [''Now calculating dP/dE...'']\<rparr> \<and>
   sum_list (map (block_totalIon ([[[1]]] ! 0)) [(0, [1 / 2, 7 / 10], [[1], [1]], 0, 0)]) = 2 \<and>
   sum_list [0, 0, 10, 0] * (3 / 10 :: real) = 3"
proof -
  let ?out = "\<lparr>returned = ([0, 3 / 10, 3 / 5, 9 / 10], [0, 0, 10, 0]),
          printed = [2, 3], logged = [''Now calculating dP/dE...'']\<rparr> :: energy_outcome"
  from energy_distribution_diagnostic_printed
    [of "\<lambda>d. d" "[(0, [1 / 2, 7 / 10], [[1], [1]], 0, 0)]" "[[[1]]]" 0 0 1 "3 / 10" ?out] CalculateEnergyDistribution_run
  obtain E energyDistr where "returned ?out = (E, energyDistr)"
    "printed ?out = [sum_list (map (block_totalIon ([[[1]]] ! 0)) [(0, [1 / 2, 7 / 10], [[1], [1]], 0, 0)]),
                       sum_list energyDistr * (3 / 10)]"
    by blast
  then show ?thesis using CalculateEnergyDistribution_run by simp
qed


text \<open>
  Claim C2, as stated, fails: the value handed to the caller does not carry the
  mismatch.  Two wavefunctions, with the same catalog and grid, make the call return
  the same pair while the mismatch is \<open>2\<close> for one and \<open>8\<close> for the other.
\<close>

theorem energy_distribution_diagnostic_discarded:
  "CalculateEnergyDistribution (\<lambda>d. d) [(0, [5, 6], [[1], [1]], 0, 0)] [[[1]]] 0 0 1 1 =
     Inr \<lparr>returned = ([0], [0]), printed = [2, 0], logged = [''Now calculating dP/dE...'']\<rparr> \<and>
   CalculateEnergyDistribution (\<lambda>d. d) [(0, [5, 6], [[1], [1]], 0, 0)] [[[2]]] 0 0 1 1 =
     Inr \<lparr>returned = ([0], [0]), printed = [8, 0], logged = [''Now calculating dP/dE...'']\<rparr>"
  by (simp add: CalculateEnergyDistribution_def MultiplyOverlap_def Copy_def
        Representation_MultiplyOverlap_def r_slice_def getitem_def vdot_def
        density_energy_def spacing_energy_def interiorSpacing_energy_def
        broadcast2_def interp_def interp_at_def ceiling_eq_iff)

section \<open>MultiplyOverlap leaves its argument alone\<close>

text \<open>
  Claim C7.  For every wavefunction object \<open>inPsi\<close> of the store, \<open>MultiplyOverlap\<close>
  returns a reference to a cell that did not exist before, holding the overlap operator
  applied to the data of \<open>inPsi\<close>; the data of \<open>inPsi\<close>, and of every other object that
  existed before the call, is unchanged.
\<close>

theorem MultiplyOverlap_new_wavefunction:
  assumes "inPsi < length h"
  shows "\<exists>h' outPsi. MultiplyOverlap S h inPsi = (h', outPsi) \<and>
     outPsi = length h \<and> outPsi \<noteq> inPsi \<and> length h' = Suc (length h) \<and>
     h' ! outPsi = S (h ! inPsi) \<and> h' ! inPsi = h ! inPsi \<and>
     (\<forall>a<length h. h' ! a = h ! a)"
  using assms
  by (simp add: MultiplyOverlap_def Copy_def Representation_MultiplyOverlap_def nth_append)

theorem MultiplyOverlap_new_wavefunction_witness:
  "(0 :: nat) < length [[[1, 2 :: complex]]] \<and>
   MultiplyOverlap (map (map (\<lambda>z. 2 * z))) [[[1, 2]]] 0 = ([[[1, 2]], [[2, 4]]], 1)"
proof -
  have h: "(0 :: nat) < length [[[1, 2 :: complex]]]" by simp
  from MultiplyOverlap_new_wavefunction [OF h, of "map (map (\<lambda>z. 2 * z))"]
  obtain h' outPsi where m: "MultiplyOverlap (map (map (\<lambda>z. 2 * z))) [[[1, 2]]] 0 = (h', outPsi)"
    and o: "outPsi = length [[[1, 2 :: complex]]]" and l: "length h' = Suc (length [[[1, 2 :: complex]]])"
    and n: "h' ! outPsi = map (map (\<lambda>z. 2 * z)) ([[[1, 2]]] ! 0)"
    and k: "h' ! 0 = [[[1, 2 :: complex]]] ! 0"
    by blast
  have "outPsi = 1" using o by simp
  moreover have "h' = [[[1, 2]], [[2, 4]]]"
  proof -
    from l obtain a b where "h' = [a, b]"
      by (cases h') (auto simp: length_Suc_conv)
    then show ?thesis using n k \<open>outPsi = 1\<close> by simp
  qed
  ultimately show ?thesis using h m by simp
qed


section \<open>Setup of the Coulomb wave analysis\<close>

text \<open>
  Claim C6.  When the catalog loaded from the file list carries a charge \<open>Z\<close> different
  from the one the \<open>CoulombwaveAnalysis\<close> was constructed with, \<open>Setup\<close> raises
  \<open>AssertionError\<close> and does not return.  (The attribute \<open>Eigenstate\<close> has been assigned
  by then: the assertion follows the assignment.)
\<close>

theorem Setup_charge_mismatch_aborts:
  assumes "FromMultipleFiles (self_FileList self) = Inr cw" "CoulombWaves_Z cw \<noteq> self_Z self"
  shows "Setup FromMultipleFiles self = (self\<lparr>self_Eigenstate := Some cw\<rparr>, Inl AssertionError)"
  using assms by (simp add: Setup_def Let_def)

theorem Setup_charge_mismatch_aborts_witness:
  "CoulombWaves_Z \<lparr>CoulombWaves_Z = 2, CoulombWaves_files = [''a.h5'']\<rparr> \<noteq>
     self_Z (CoulombwaveAnalysis_init
       \<lparr>Eigenvalues_folder_name = ''e'', Eigenvalues_shift = 0, RadialPostfix = []\<rparr> 1 [''a.h5'']) \<and>
   Setup (\<lambda>files. Inr \<lparr>CoulombWaves_Z = 2, CoulombWaves_files = files\<rparr>)
     (CoulombwaveAnalysis_init
       \<lparr>Eigenvalues_folder_name = ''e'', Eigenvalues_shift = 0, RadialPostfix = []\<rparr> 1 [''a.h5'']) =
     (\<lparr>self_Config = \<lparr>Eigenvalues_folder_name = ''e'', Eigenvalues_shift = 0, RadialPostfix = []\<rparr>,
       self_BoundThreshold = 0, self_m = 0, self_Z = 1, self_FileList = [''a.h5''],
       self_Eigenstate = Some \<lparr>CoulombWaves_Z = 2, CoulombWaves_files = [''a.h5'']\<rparr>\<rparr>,
      Inl AssertionError)"
proof -
  let ?conf = "\<lparr>Eigenvalues_folder_name = ''e'', Eigenvalues_shift = 0, RadialPostfix = []\<rparr>"
  let ?self = "CoulombwaveAnalysis_init ?conf 1 [''a.h5'']"
  let ?cw = "\<lparr>CoulombWaves_Z = 2, CoulombWaves_files = [''a.h5'']\<rparr>"
  let ?load = "\<lambda>files. Inr \<lparr>CoulombWaves_Z = 2, CoulombWaves_files = files\<rparr> :: py_error + CoulombWaves"
  have a: "?load (self_FileList ?self) = Inr ?cw" by (simp add: CoulombwaveAnalysis_init_def)
  have b: "CoulombWaves_Z ?cw \<noteq> self_Z ?self" by (simp add: CoulombwaveAnalysis_init_def)
  from Setup_charge_mismatch_aborts [of ?load ?self ?cw, OF a b] b
  show ?thesis by (simp add: CoulombwaveAnalysis_init_def)
qed


section \<open>Loading eigenpairs that were never stored\<close>

text \<open>
  Claim C5.  When no file exists under the generated name, \<open>LoadEigenpairs\<close> appends one
  warning naming the file to the log, leaves the file system alone, and returns two
  empty sequences; it does not raise.
\<close>

theorem LoadEigenpairs_missing_file:
  assumes "fs w (NameGeneratorBoundstates str normpath conf l m) = None"
  shows "LoadEigenpairs str normpath conf l m w =
     (w\<lparr>log := log w @ [(WARNING, ''Eigenstates file does not exist, skipping: '' @
                               NameGeneratorBoundstates str normpath conf l m)]\<rparr>,
      Inr ([], []))"
  using assms by (simp add: LoadEigenpairs_def logger_def Let_def)

theorem LoadEigenpairs_missing_file_witness:
  "fs \<lparr>fs = Map.empty, log = []\<rparr>
     (NameGeneratorBoundstates str_nat (\<lambda>p. p)
        \<lparr>Eigenvalues_folder_name = ''eig'', Eigenvalues_shift = 0, RadialPostfix = [''r'', ''10'']\<rparr>
        2 0) = None \<and>
   LoadEigenpairs str_nat (\<lambda>p. p)
     \<lparr>Eigenvalues_folder_name = ''eig'', Eigenvalues_shift = 0, RadialPostfix = [''r'', ''10'']\<rparr>
     2 0 \<lparr>fs = Map.empty, log = []\<rparr> =
     (\<lparr>fs = Map.empty,
       log = [(WARNING, ''Eigenstates file does not exist, skipping: eig/r_10_l2_m0.h5'')]\<rparr>,
      Inr ([], []))"
proof -
  let ?conf = "\<lparr>Eigenvalues_folder_name = ''eig'', Eigenvalues_shift = 0, RadialPostfix = [''r'', ''10'']\<rparr>"
  let ?w = "\<lparr>fs = Map.empty, log = []\<rparr>"
  have n: "NameGeneratorBoundstates str_nat (\<lambda>p. p) ?conf 2 0 = ''eig/r_10_l2_m0.h5''"
    by (simp add: NameGeneratorBoundstates_def replace_space_def str_nat_digit digit_def)
  have a: "fs ?w (NameGeneratorBoundstates str_nat (\<lambda>p. p) ?conf 2 0) = None" by simp
  from LoadEigenpairs_missing_file [OF a] a show ?thesis by (simp add: n)
qed


section \<open>The eigenvalues reported as converged\<close>

text \<open>
  Claim C1.  When the solver's estimates are no longer than its eigenvalue array (they
  are parallel arrays), \<open>FindEigenvaluesInverseIterationsPiram\<close> returns, in index order,
  \<open>1 / ev[i] + shift\<close> for exactly the indices \<open>i\<close> whose convergence estimate is
  negative, with \<open>shift\<close> the configured one: every such index contributes its
  converted eigenvalue, and every entry of the result comes from such an index.
\<close>

theorem FindEigenvalues_converged_only:
  assumes "length (GetConvergenceEstimates solver) \<le> length (GetEigenvalues solver)"
  shows "\<exists>eigenvalues.
     FindEigenvaluesInverseIterationsPiram conf solver shiftInvertSolver =
       Inr (solver, shiftInvertSolver, eigenvalues) \<and>
     eigenvalues =
       map (\<lambda>i. 1 / GetEigenvalues solver ! i + Eigenvalues_shift conf)
         (filter (\<lambda>i. GetConvergenceEstimates solver ! i < 0)
            [0 ..< length (GetConvergenceEstimates solver)]) \<and>
     (\<forall>i<length (GetConvergenceEstimates solver).
        GetConvergenceEstimates solver ! i < 0 \<longrightarrow>
        1 / GetEigenvalues solver ! i + Eigenvalues_shift conf \<in> set eigenvalues) \<and>
     (\<forall>j<length eigenvalues. \<exists>i<length (GetConvergenceEstimates solver).
        GetConvergenceEstimates solver ! i < 0 \<and>
        eigenvalues ! j = 1 / GetEigenvalues solver ! i + Eigenvalues_shift conf)"
proof -
  let ?ev = "GetEigenvalues solver"
  let ?est = "GetConvergenceEstimates solver"
  let ?idx = "filter (\<lambda>i. ?est ! i < 0) [0 ..< length ?est]"
  let ?r = "map (\<lambda>i. 1 / ?ev ! i + Eigenvalues_shift conf) ?idx"
  have "\<forall>i\<in>set ?idx. i < length ?ev" using assms by auto
  then have t: "take_indices ?ev (where_negative ?est) = Inr (map (\<lambda>i. ?ev ! i) ?idx)"
    unfolding where_negative_def by (rule take_indices_where)
  have f: "FindEigenvaluesInverseIterationsPiram conf solver shiftInvertSolver =
       Inr (solver, shiftInvertSolver, ?r)"
    by (simp add: FindEigenvaluesInverseIterationsPiram_def t Let_def comp_def)
  have a: "\<forall>i<length ?est. ?est ! i < 0 \<longrightarrow> 1 / ?ev ! i + Eigenvalues_shift conf \<in> set ?r"
    by auto
  have b: "\<forall>j<length ?r. \<exists>i<length ?est. ?est ! i < 0 \<and>
        ?r ! j = 1 / ?ev ! i + Eigenvalues_shift conf"
  proof (intro allI impI)
    fix j assume j: "j < length ?r"
    then have "?idx ! j \<in> set ?idx" by (intro nth_mem) simp
    then have "?idx ! j < length ?est \<and> ?est ! (?idx ! j) < 0" by simp
    moreover have "?r ! j = 1 / ?ev ! (?idx ! j) + Eigenvalues_shift conf"
      using j by simp
    ultimately show "\<exists>i<length ?est. ?est ! i < 0 \<and>
        ?r ! j = 1 / ?ev ! i + Eigenvalues_shift conf" by blast
  qed
  show ?thesis using f a b by blast
qed


theorem FindEigenvalues_converged_only_witness:
  "length [- 1, 3, - 2 :: real] \<le> length [1 / 2, 1 / 4, - 1 :: real] \<and>
   (\<exists>s g. FindEigenvaluesInverseIterationsPiram
      \<lparr>Eigenvalues_folder_name = ''eig'', Eigenvalues_shift = - 1 / 2, RadialPostfix = []\<rparr>
      \<lparr>GetEigenvalues = [1 / 2, 1 / 4, - 1], GetConvergenceEstimates = [- 1, 3, - 2],
        GetErrorEstimates = [], Eigenvectors = [], GetOperatorCount = 0, GetRestartCount = 0,
        GetOrthogonalizationCount = 0,
        BaseProblem_Config = \<lparr>Eigenvalues_folder_name = ''eig'', Eigenvalues_shift = - 1 / 2, RadialPostfix = []\<rparr>\<rparr>
      \<lparr>GetErrorEstimateList = []\<rparr> = Inr (s, g, [3 / 2, - 3 / 2]))"
proof -
  let ?conf = "\<lparr>Eigenvalues_folder_name = ''eig'', Eigenvalues_shift = - 1 / 2, RadialPostfix = []\<rparr>"
  let ?solver = "\<lparr>GetEigenvalues = [1 / 2, 1 / 4, - 1], GetConvergenceEstimates = [- 1, 3, - 2],
        GetErrorEstimates = [], Eigenvectors = [], GetOperatorCount = 0, GetRestartCount = 0,
        GetOrthogonalizationCount = 0, BaseProblem_Config = ?conf\<rparr>"
  have h: "length (GetConvergenceEstimates ?solver) \<le> length (GetEigenvalues ?solver)" by simp
  from FindEigenvalues_converged_only [OF h, of ?conf "\<lparr>GetErrorEstimateList = []\<rparr>"]
  obtain eigenvalues where
    f: "FindEigenvaluesInverseIterationsPiram ?conf ?solver \<lparr>GetErrorEstimateList = []\<rparr> =
       Inr (?solver, \<lparr>GetErrorEstimateList = []\<rparr>, eigenvalues)"
    and e: "eigenvalues =
       map (\<lambda>i. 1 / GetEigenvalues ?solver ! i + Eigenvalues_shift ?conf)
         (filter (\<lambda>i. GetConvergenceEstimates ?solver ! i < 0)
            [0 ..< length (GetConvergenceEstimates ?solver)])"
    by blast
  have "[0 ..< 3] = [0, 1, 2]" by (simp add: upt_conv_Cons eval_nat_numeral)
  then have "eigenvalues = [3 / 2, - 3 / 2]" using e by simp
  then show ?thesis using f by simp
qed

section \<open>What SaveEigenpairsSolverShiftInvert persists\<close>

text \<open>
  Claim C9.  On the coordinating process, for a solver that holds at least one
  eigenvalue, one eigenvector per eigenvalue and one convergence estimate per
  eigenvalue, \<open>SaveEigenpairsSolverShiftInvert\<close> returns normally and leaves a file whose
  \<open>/Eig/Eigenvalues\<close> array is \<open>1 / ev[i] + shift\<close> for every index \<open>i\<close> of the solver,
  whatever the sign of the convergence estimate, and whose dataset \<open>/Eig/Eigenvector_i\<close>
  is the \<open>i\<close>-th eigenvector for every \<open>i\<close>.  \<open>FindEigenvaluesInverseIterationsPiram\<close> on
  the same solver reports only the indices with a negative estimate, so as soon as one
  estimate is not negative the file holds more eigenpairs than are reported as
  converged.
\<close>

theorem SaveEigenpairs_stores_unconverged:
  assumes "ProcId = 0" "GetEigenvalues solver \<noteq> []"
    "length (Eigenvectors solver) = length (GetEigenvalues solver)"
    "length (GetConvergenceEstimates solver) = length (GetEigenvalues solver)"
  shows "\<exists>w' eigenvalues.
     SaveEigenpairsSolverShiftInvert str normpath ProcId LmIndices solver shiftInvertSolver w =
       (w', Inr ()) \<and>
     node_at w'
       (NameGeneratorBoundstates str normpath (BaseProblem_Config solver)
          (sort (remdups (map fst LmIndices))) (sort (remdups (map snd LmIndices))))
       ''/Eig/Eigenvalues'' =
       Some (RealArray (map (\<lambda>x. 1 / x + Eigenvalues_shift (BaseProblem_Config solver))
                          (GetEigenvalues solver))) \<and>
     (\<forall>i<length (GetEigenvalues solver).
        node_at w'
          (NameGeneratorBoundstates str normpath (BaseProblem_Config solver)
             (sort (remdups (map fst LmIndices))) (sort (remdups (map snd LmIndices))))
          (GetEigenvectorDatasetPath i) = Some (WaveData (Eigenvectors solver ! i))) \<and>
     FindEigenvaluesInverseIterationsPiram (BaseProblem_Config solver) solver shiftInvertSolver =
       Inr (solver, shiftInvertSolver, eigenvalues) \<and>
     eigenvalues =
       map (\<lambda>i. 1 / GetEigenvalues solver ! i + Eigenvalues_shift (BaseProblem_Config solver))
         (filter (\<lambda>i. GetConvergenceEstimates solver ! i < 0)
            [0 ..< length (GetEigenvalues solver)]) \<and>
     ((\<exists>i<length (GetEigenvalues solver). \<not> GetConvergenceEstimates solver ! i < 0) \<longrightarrow>
        length eigenvalues < length (GetEigenvalues solver))"
proof -
  let ?ev = "GetEigenvalues solver"
  let ?est = "GetConvergenceEstimates solver"
  let ?r = "map (\<lambda>i. 1 / ?ev ! i + Eigenvalues_shift (BaseProblem_Config solver))
         (filter (\<lambda>i. ?est ! i < 0) [0 ..< length ?ev])"
  have f: "FindEigenvaluesInverseIterationsPiram (BaseProblem_Config solver) solver shiftInvertSolver =
       Inr (solver, shiftInvertSolver, ?r)"
    using FindEigenvalues_result [of solver "BaseProblem_Config solver" shiftInvertSolver] assms(4)
    by simp
  have fewer: "length ?r < length ?ev" if "\<exists>i<length ?ev. \<not> ?est ! i < 0"
  proof -
    from that obtain i where i: "i < length ?ev" "\<not> ?est ! i < 0" by blast
    then have "i \<in> set [0 ..< length ?ev]" by simp
    then have "length (filter (\<lambda>i. ?est ! i < 0) [0 ..< length ?ev]) < length [0 ..< length ?ev]"
      using i(2) by (rule length_filter_less)
    then show ?thesis by simp
  qed
  from SaveEigenpairs_result [OF assms(2,3), of str normpath LmIndices shiftInvertSolver w]
  show ?thesis using f fewer unfolding assms(1) by blast
qed

theorem SaveEigenpairs_stores_unconverged_witness:
  "(\<exists>w'. SaveEigenpairsSolverShiftInvert (\<lambda>a. ''0'') (\<lambda>p. p) 0 [(0 :: int, 0 :: int)]
       \<lparr>GetEigenvalues = [1, 2], GetConvergenceEstimates = [- 1, 1],
         GetErrorEstimates = [0, 0], Eigenvectors = [[[1]], [[2]]], GetOperatorCount = 0,
         GetRestartCount = 0, GetOrthogonalizationCount = 0,
         BaseProblem_Config = \<lparr>Eigenvalues_folder_name = ''eig'', Eigenvalues_shift = 0,
           RadialPostfix = []\<rparr>\<rparr>
       \<lparr>GetErrorEstimateList = []\<rparr> \<lparr>fs = Map.empty, log = []\<rparr> = (w', Inr ()) \<and>
     node_at w'
       (NameGeneratorBoundstates (\<lambda>a. ''0'') (\<lambda>p. p)
          \<lparr>Eigenvalues_folder_name = ''eig'', Eigenvalues_shift = 0, RadialPostfix = []\<rparr>
          (sort (remdups (map fst [(0 :: int, 0 :: int)]))) (sort (remdups (map snd [(0 :: int, 0 :: int)]))))
       ''/Eig/Eigenvalues'' = Some (RealArray [1, 1 / 2]) \<and>
     node_at w'
       (NameGeneratorBoundstates (\<lambda>a. ''0'') (\<lambda>p. p)
          \<lparr>Eigenvalues_folder_name = ''eig'', Eigenvalues_shift = 0, RadialPostfix = []\<rparr>
          (sort (remdups (map fst [(0 :: int, 0 :: int)]))) (sort (remdups (map snd [(0 :: int, 0 :: int)]))))
       (GetEigenvectorDatasetPath (Suc 0)) = Some (WaveData [[2]])) \<and>
   FindEigenvaluesInverseIterationsPiram
     \<lparr>Eigenvalues_folder_name = ''eig'', Eigenvalues_shift = 0, RadialPostfix = []\<rparr>
     \<lparr>GetEigenvalues = [1, 2], GetConvergenceEstimates = [- 1, 1],
       GetErrorEstimates = [0, 0], Eigenvectors = [[[1]], [[2]]], GetOperatorCount = 0,
       GetRestartCount = 0, GetOrthogonalizationCount = 0,
       BaseProblem_Config = \<lparr>Eigenvalues_folder_name = ''eig'', Eigenvalues_shift = 0,
         RadialPostfix = []\<rparr>\<rparr>
     \<lparr>GetErrorEstimateList = []\<rparr> =
     Inr (\<lparr>GetEigenvalues = [1, 2], GetConvergenceEstimates = [- 1, 1],
           GetErrorEstimates = [0, 0], Eigenvectors = [[[1]], [[2]]], GetOperatorCount = 0,
           GetRestartCount = 0, GetOrthogonalizationCount = 0,
           BaseProblem_Config = \<lparr>Eigenvalues_folder_name = ''eig'', Eigenvalues_shift = 0,
             RadialPostfix = []\<rparr>\<rparr>,
          \<lparr>GetErrorEstimateList = []\<rparr>, [1])"
proof -
  let ?conf = "\<lparr>Eigenvalues_folder_name = ''eig'', Eigenvalues_shift = 0, RadialPostfix = []\<rparr>"
  let ?solver = "\<lparr>GetEigenvalues = [1, 2], GetConvergenceEstimates = [- 1, 1],
         GetErrorEstimates = [0, 0], Eigenvectors = [[[1]], [[2]]], GetOperatorCount = 0,
         GetRestartCount = 0, GetOrthogonalizationCount = 0, BaseProblem_Config = ?conf\<rparr>"
  let ?gm = "\<lparr>GetErrorEstimateList = []\<rparr>"
  have h1: "(0::nat) = 0" and h2: "GetEigenvalues ?solver \<noteq> []"
    and h3: "length (Eigenvectors ?solver) = length (GetEigenvalues ?solver)"
    and h4: "length (GetConvergenceEstimates ?solver) = length (GetEigenvalues ?solver)"
    by simp_all
  from SaveEigenpairs_stores_unconverged [OF h1 h2 h3 h4,
      of "\<lambda>a. ''0''" "\<lambda>p. p" "[(0 :: int, 0 :: int)]" ?gm "\<lparr>fs = Map.empty, log = []\<rparr>"]
  obtain w' eigenvalues where
    s: "SaveEigenpairsSolverShiftInvert (\<lambda>a. ''0'') (\<lambda>p. p) 0 [(0 :: int, 0 :: int)] ?solver ?gm
          \<lparr>fs = Map.empty, log = []\<rparr> = (w', Inr ())"
    and ev: "node_at w'
       (NameGeneratorBoundstates (\<lambda>a. ''0'') (\<lambda>p. p) (BaseProblem_Config ?solver)
          (sort (remdups (map fst [(0 :: int, 0 :: int)]))) (sort (remdups (map snd [(0 :: int, 0 :: int)]))))
       ''/Eig/Eigenvalues'' =
       Some (RealArray (map (\<lambda>x. 1 / x + Eigenvalues_shift (BaseProblem_Config ?solver))
                          (GetEigenvalues ?solver)))"
    and vec: "\<forall>i<length (GetEigenvalues ?solver).
        node_at w'
          (NameGeneratorBoundstates (\<lambda>a. ''0'') (\<lambda>p. p) (BaseProblem_Config ?solver)
             (sort (remdups (map fst [(0 :: int, 0 :: int)]))) (sort (remdups (map snd [(0 :: int, 0 :: int)]))))
          (GetEigenvectorDatasetPath i) = Some (WaveData (Eigenvectors ?solver ! i))"
    and f: "FindEigenvaluesInverseIterationsPiram (BaseProblem_Config ?solver) ?solver ?gm =
       Inr (?solver, ?gm, eigenvalues)"
    and e: "eigenvalues =
       map (\<lambda>i. 1 / GetEigenvalues ?solver ! i + Eigenvalues_shift (BaseProblem_Config ?solver))
         (filter (\<lambda>i. GetConvergenceEstimates ?solver ! i < 0)
            [0 ..< length (GetEigenvalues ?solver)])"
    by blast
  have "[0 ..< 2] = [0, Suc 0]" by (simp add: upt_conv_Cons eval_nat_numeral)
  then have e': "eigenvalues = [1]" using e by simp
  have v1: "node_at w'
       (NameGeneratorBoundstates (\<lambda>a. ''0'') (\<lambda>p. p) ?conf
          (sort (remdups (map fst [(0 :: int, 0 :: int)]))) (sort (remdups (map snd [(0 :: int, 0 :: int)]))))
       (GetEigenvectorDatasetPath (Suc 0)) = Some (WaveData [[2]])"
    using vec [rule_format, of "Suc 0"] by simp
  have ev': "node_at w'
       (NameGeneratorBoundstates (\<lambda>a. ''0'') (\<lambda>p. p) ?conf
          (sort (remdups (map fst [(0 :: int, 0 :: int)]))) (sort (remdups (map snd [(0 :: int, 0 :: int)]))))
       ''/Eig/Eigenvalues'' = Some (RealArray [1, 1 / 2])"
    using ev by simp
  have f': "FindEigenvaluesInverseIterationsPiram ?conf ?solver ?gm = Inr (?solver, ?gm, [1])"
    using f e' by simp
  show ?thesis using s ev' v1 f' by blast
qed

end
